theory Spec2Isabelle
  imports Main "HOL-Library.Word"
begin

section \<open>JavaScript values shared by all pages\<close>

text \<open>
  A JavaScript string is a sequence of 16-bit code units. String literals of the source
  are written \<open>js ''...''\<close>; property names of object literals stay HOL strings.
\<close>

type_synonym jstr = "16 word list"

definition js :: "string \<Rightarrow> jstr" where
  "js s = map (\<lambda>c. of_nat (of_char c)) s"

text \<open>
  A template literal prints \<open>null\<close> as the four letters "null"; \<open>token\<close> and
  \<open>sessionId\<close> are nullable strings.
\<close>

definition interp :: "jstr option \<Rightarrow> jstr" where
  "interp v = (case v of None \<Rightarrow> js ''null'' | Some s \<Rightarrow> s)"

text \<open>
  The user object of the auth context. Only \<open>name\<close>, \<open>email\<close> and \<open>is_premium\<close> are read
  by the frontend; a missing \<open>is_premium\<close> is falsy and is modelled as \<open>False\<close>.
\<close>

record user =
  email :: "jstr option"
  name :: "jstr option"
  is_premium :: bool

text \<open>\<open>{ ...user, is_premium: true }\<close>: spreading \<open>null\<close> gives the empty object.\<close>

definition with_premium :: "user option \<Rightarrow> user" where
  "with_premium u =
     (case u of
        None \<Rightarrow> \<lparr>email = None, name = None, is_premium = True\<rparr>
      | Some v \<Rightarrow> v\<lparr>is_premium := True\<rparr>)"

text \<open>\<open>user?.is_premium\<close> read as a condition.\<close>

definition premium :: "user option \<Rightarrow> bool" where
  "premium u = (case u of None \<Rightarrow> False | Some v \<Rightarrow> is_premium v)"

subsection \<open>Requests, responses and observable actions\<close>

datatype http_method = GET | POST

text \<open>Binary data (a \<open>Blob\<close>): its bytes.\<close>

type_synonym blob = "8 word list"

text \<open>
  What is passed as \<open>body\<close> to \<open>fetch\<close>: nothing, the output of \<open>JSON.stringify\<close> on an
  object literal (its fields in order), or a \<open>FormData\<close> with one file part
  (field name, the file's bytes, file name).
\<close>

datatype payload =
    No_body
  | Json_body "(string \<times> jstr) list"
  | Form_data string blob jstr

record request =
  url :: jstr
  req_method :: http_method
  headers :: "(string \<times> jstr) list"
  body :: payload

text \<open>The body of an error answer of the backend: an object with a \<open>detail\<close> field.\<close>

record problem =
  detail :: "jstr option"

text \<open>
  What the environment answers to one \<open>fetch\<close>: the promise rejects with an error
  message, or it resolves to a response. A response has its \<open>ok\<close> flag and the outcome of
  \<open>res.json()\<close> (\<open>Inl\<close> the message of the parse error, \<open>Inr\<close> the parsed body); the
  body of a response that is not ok is an error object, the body of an ok response is the
  data of the endpoint.
\<close>

datatype 'a fetch_result =
    Rejected jstr
  | Resp_not_ok "jstr + problem"
  | Resp_ok "jstr + 'a"

text \<open>
  Calls that leave the component, in program order: network requests, toasts,
  navigation, timers, audio playback, local storage, console output, and \<open>setUser\<close> of
  the auth context when it is called from a page.
\<close>

datatype action =
    Fetch request
  | Toast_error jstr
  | Toast_success jstr
  | Navigate_to jstr
  | Set_timeout nat
  | Play_audio jstr
  | Storage_set string jstr
  | Storage_remove string
  | Location_assign jstr
  | Console_error
  | Set_user user

section \<open>AuthProvider\<close>

text \<open>
  The state of the auth context. \<open>auth_token\<close> starts as
  \<open>localStorage.getItem('yky_token')\<close>, \<open>auth_user\<close> as \<open>null\<close>, \<open>auth_loading\<close> as true.
\<close>

record auth =
  auth_user :: "user option"
  auth_token :: "jstr option"
  auth_loading :: bool

definition me_request :: "jstr \<Rightarrow> jstr option \<Rightarrow> request" where
  "me_request api token =
     \<lparr>url = api @ js ''/api/auth/me'',
      req_method = GET,
      headers = [(''Authorization'', js ''Bearer '' @ interp token)],
      body = No_body\<rparr>"

definition logout :: "auth \<Rightarrow> auth \<times> action list" where
  "logout a = (a\<lparr>auth_token := None, auth_user := None\<rparr>, [Storage_remove ''yky_token''])"

text \<open>
  \<open>fetchUser\<close>: the effect that runs when a token is present. An ok answer replaces the
  user by the server's record, an answer that is not ok logs out, a rejected request or an
  unreadable body is logged; \<open>setLoading(false)\<close> runs in every case.
\<close>

definition fetchUser :: "jstr \<Rightarrow> user fetch_result \<Rightarrow> auth \<Rightarrow> auth \<times> action list" where
  "fetchUser api r a =
     (let req = Fetch (me_request api (auth_token a)) in
      case r of
        Rejected _ \<Rightarrow> (a\<lparr>auth_loading := False\<rparr>, [req, Console_error])
      | Resp_not_ok _ \<Rightarrow>
          (let (a', acts) = logout a in (a'\<lparr>auth_loading := False\<rparr>, req # acts))
      | Resp_ok parsed \<Rightarrow>
          (case parsed of
             Inl _ \<Rightarrow> (a\<lparr>auth_loading := False\<rparr>, [req, Console_error])
           | Inr data \<Rightarrow> (a\<lparr>auth_user := Some data, auth_loading := False\<rparr>, [req])))"

text \<open>The data of the login and register endpoints: \<open>data.token\<close> and \<open>data.user\<close>.\<close>

record session =
  session_token :: jstr
  session_user :: user

definition login_request :: "jstr \<Rightarrow> jstr \<Rightarrow> jstr \<Rightarrow> request" where
  "login_request api email' password =
     \<lparr>url = api @ js ''/api/auth/login'',
      req_method = POST,
      headers = [(''Content-Type'', js ''application/json'')],
      body = Json_body [(''email'', email'), (''password'', password)]\<rparr>"

text \<open>What \<open>login\<close> and \<open>register\<close> do with the data of an ok answer.\<close>

definition store_session :: "session \<Rightarrow> auth \<Rightarrow> auth \<times> action list" where
  "store_session data a =
     (a\<lparr>auth_token := Some (session_token data), auth_user := Some (session_user data)\<rparr>,
      [Storage_set ''yky_token'' (session_token data)])"

text \<open>
  \<open>login\<close> returns the data, or throws: \<open>Inl\<close> is the message of the thrown error. An
  answer that is not ok throws the fixed message; its body is not read.
\<close>

definition login ::
  "jstr \<Rightarrow> jstr \<Rightarrow> jstr \<Rightarrow> session fetch_result \<Rightarrow> auth \<Rightarrow> (jstr + session) \<times> auth \<times> action list"
where
  "login api email' password r a =
     (let req = Fetch (login_request api email' password) in
      case r of
        Rejected m \<Rightarrow> (Inl m, a, [req])
      | Resp_not_ok _ \<Rightarrow> (Inl (js ''Invalid credentials''), a, [req])
      | Resp_ok parsed \<Rightarrow>
          (case parsed of
             Inl m \<Rightarrow> (Inl m, a, [req])
           | Inr data \<Rightarrow>
               (let (a', acts) = store_session data a in (Inr data, a', req # acts))))"

text \<open>The form of the auth page, passed to \<open>register\<close> as \<open>userData\<close>.\<close>

record form_data =
  form_email :: jstr
  form_password :: jstr
  form_name :: jstr
  form_birth_date :: jstr

definition register_request :: "jstr \<Rightarrow> form_data \<Rightarrow> request" where
  "register_request api userData =
     \<lparr>url = api @ js ''/api/auth/register'',
      req_method = POST,
      headers = [(''Content-Type'', js ''application/json'')],
      body = Json_body
        [(''email'', form_email userData), (''password'', form_password userData),
         (''name'', form_name userData), (''birth_date'', form_birth_date userData)]\<rparr>"

text \<open>\<open>a || b\<close> on an optional string: an absent or empty \<open>a\<close> is falsy.\<close>

definition or_else :: "jstr option \<Rightarrow> jstr \<Rightarrow> jstr" where
  "or_else a b = (case a of None \<Rightarrow> b | Some s \<Rightarrow> if s = [] then b else s)"

text \<open>
  \<open>register\<close>: an answer that is not ok throws \<open>err.detail || 'Registration failed'\<close>, where
  \<open>err\<close> is the parsed body (and the parse error itself when the body cannot be read).
\<close>

definition register ::
  "jstr \<Rightarrow> form_data \<Rightarrow> session fetch_result \<Rightarrow> auth \<Rightarrow> (jstr + session) \<times> auth \<times> action list"
where
  "register api userData r a =
     (let req = Fetch (register_request api userData) in
      case r of
        Rejected m \<Rightarrow> (Inl m, a, [req])
      | Resp_not_ok parsed \<Rightarrow>
          (case parsed of
             Inl m \<Rightarrow> (Inl m, a, [req])
           | Inr err \<Rightarrow> (Inl (or_else (detail err) (js ''Registration failed'')), a, [req]))
      | Resp_ok parsed \<Rightarrow>
          (case parsed of
             Inl m \<Rightarrow> (Inl m, a, [req])
           | Inr data \<Rightarrow>
               (let (a', acts) = store_session data a in (Inr data, a', req # acts))))"

section \<open>AuthPage\<close>

record auth_page =
  isLogin :: bool
  formData :: form_data
  page_loading :: bool

text \<open>
  \<open>handleSubmit\<close>: calls \<open>login\<close> or \<open>register\<close>; on success a toast and the navigation to
  the dashboard, on a thrown error a toast with \<open>err.message\<close>; \<open>setLoading(false)\<close> at the
  end of both.
\<close>

definition handleSubmit ::
  "jstr \<Rightarrow> session fetch_result \<Rightarrow> auth_page \<Rightarrow> auth \<Rightarrow> auth_page \<times> auth \<times> action list"
where
  "handleSubmit api r p a =
     (let (res, a', acts) =
            (if isLogin p
             then login api (form_email (formData p)) (form_password (formData p)) r a
             else register api (formData p) r a)
      in case res of
           Inr _ \<Rightarrow>
             (p\<lparr>page_loading := False\<rparr>, a',
              acts @ [Toast_success
                        (if isLogin p then js ''Welcome back, Seeker'' else js ''Your journey begins''),
                      Navigate_to (js ''/dashboard'')])
         | Inl m \<Rightarrow> (p\<lparr>page_loading := False\<rparr>, a', acts @ [Toast_error m]))"

section \<open>VoiceOracle\<close>

text \<open>
  \<open>String.prototype.trim\<close> removes the white space and line terminator code units of the
  language from both ends: tab, line feed, vertical tab, form feed, carriage return,
  space, no-break space, U+1680, U+2000 to U+200A, U+2028, U+2029, U+202F, U+205F,
  U+3000 and U+FEFF.
\<close>

definition js_whitespace :: "16 word \<Rightarrow> bool" where
  "js_whitespace c \<longleftrightarrow>
     (0x09 \<le> c \<and> c \<le> 0x0D) \<or> c = 0x20 \<or> c = 0xA0 \<or> c = 0x1680 \<or>
     (0x2000 \<le> c \<and> c \<le> 0x200A) \<or> c = 0x2028 \<or> c = 0x2029 \<or> c = 0x202F \<or>
     c = 0x205F \<or> c = 0x3000 \<or> c = 0xFEFF"

definition trim :: "jstr \<Rightarrow> jstr" where
  "trim s = rev (dropWhile js_whitespace (rev (dropWhile js_whitespace s)))"

text \<open>A string read as a condition: the empty string is falsy.\<close>

definition truthy :: "jstr option \<Rightarrow> bool" where
  "truthy v = (case v of None \<Rightarrow> False | Some s \<Rightarrow> s \<noteq> [])"

text \<open>\<open>a || b\<close> on two optional strings.\<close>

definition or_opt :: "jstr option \<Rightarrow> jstr option \<Rightarrow> jstr option" where
  "or_opt a b = (if truthy a then a else b)"

record message =
  role :: jstr
  content :: "jstr option"
  audio :: "jstr option"

record oracle_data =
  data_text :: "jstr option"
  data_response :: "jstr option"
  audio_base64 :: "jstr option"

record oracle_state =
  messages :: "message list"
  input :: jstr
  oracle_loading :: bool
  isRecording :: bool
  isPlaying :: bool
  audioEnabled :: bool

definition oracle_request :: "jstr \<Rightarrow> jstr option \<Rightarrow> bool \<Rightarrow> jstr \<Rightarrow> request" where
  "oracle_request api token audio_on txt =
     \<lparr>url = api @ (if audio_on then js ''/api/oracle/speak'' else js ''/api/oracle/chat''),
      req_method = POST,
      headers = [(''Content-Type'', js ''application/json''),
                 (''Authorization'', js ''Bearer '' @ interp token)],
      body = Json_body [(''message'', txt)]\<rparr>"

text \<open>
  \<open>playAudio(base64)\<close>: plays the data URL made of the base64 text (an audio still
  playing is paused first; \<open>isPlaying\<close> changes later, in the callbacks of the audio
  element).
\<close>

definition playAudio :: "jstr \<Rightarrow> action list" where
  "playAudio base64 = [Play_audio (js ''data:audio/mp3;base64,'' @ base64)]"

text \<open>
  \<open>sendMessage(text)\<close>. The answer is JSON; its \<open>audio_base64\<close> field is kept in the
  oracle's message and, when audio is enabled, played at once.
\<close>

definition sendMessage ::
  "jstr \<Rightarrow> jstr option \<Rightarrow> jstr \<Rightarrow> oracle_data fetch_result \<Rightarrow> oracle_state \<Rightarrow>
   oracle_state \<times> action list"
where
  "sendMessage api token txt r st =
     (if trim txt = [] then (st, [])
      else
        let userMessage = \<lparr>role = js ''user'', content = Some txt, audio = None\<rparr>;
            st1 = st\<lparr>messages := messages st @ [userMessage], input := [], oracle_loading := True\<rparr>;
            req = Fetch (oracle_request api token (audioEnabled st) txt);
            failed = (st1\<lparr>oracle_loading := False\<rparr>,
                      [req, Toast_error (js ''The Oracle is meditating. Try again.'')])
        in case r of
             Rejected _ \<Rightarrow> failed
           | Resp_not_ok _ \<Rightarrow> failed
           | Resp_ok parsed \<Rightarrow>
               (case parsed of
                  Inl _ \<Rightarrow> failed
                | Inr data \<Rightarrow>
                    let oracleMessage =
                          \<lparr>role = js ''oracle'',
                           content = or_opt (data_text data) (data_response data),
                           audio = audio_base64 data\<rparr>
                    in (st1\<lparr>messages := messages st1 @ [oracleMessage], oracle_loading := False\<rparr>,
                        req #
                        (if truthy (audio_base64 data) \<and> audioEnabled st
                         then playAudio (interp (audio_base64 data))
                         else []))))"

definition listen_request :: "jstr \<Rightarrow> jstr option \<Rightarrow> blob \<Rightarrow> request" where
  "listen_request api token recording =
     \<lparr>url = api @ js ''/api/oracle/listen'',
      req_method = POST,
      headers = [(''Authorization'', js ''Bearer '' @ interp token)],
      body = Form_data ''file'' recording (js ''recording.webm'')\<rparr>"

record listen_data =
  transcription :: "jstr option"

text \<open>
  \<open>startRecording\<close>: asks for the microphone (\<open>mic\<close> tells whether access is given) and
  starts the recorder.
\<close>

definition startRecording :: "bool \<Rightarrow> oracle_state \<Rightarrow> oracle_state \<times> action list" where
  "startRecording mic st =
     (if mic then (st\<lparr>isRecording := True\<rparr>, [])
      else (st, [Toast_error (js ''Microphone access denied'')]))"

text \<open>
  The Replay button of a message, rendered when the message's \<open>audio\<close> is truthy:
  \<open>playAudio(msg.audio)\<close>.
\<close>

definition replay :: "message \<Rightarrow> action list" where
  "replay msg = (if truthy (audio msg) then playAudio (interp (audio msg)) else [])"

text \<open>
  The recorder's \<open>onstop\<close> handler set up by \<open>startRecording\<close>: uploads the recording as
  form data and sends a transcription that is not empty as a message (\<open>r2\<close> is the answer
  to that message's request). The handler calls the \<open>sendMessage\<close> of the render in which
  the recording was started: \<open>token\<close> and \<open>audio_then\<close> are the token and the
  \<open>audioEnabled\<close> of that render, while the state \<open>st\<close> is the one when the recorder
  stops. \<open>sendMessage\<close> only reads \<open>audioEnabled\<close>, so the page keeps its own value.
\<close>

definition startRecording_onstop ::
  "jstr \<Rightarrow> jstr option \<Rightarrow> bool \<Rightarrow> blob list \<Rightarrow> listen_data fetch_result \<Rightarrow>
   oracle_data fetch_result \<Rightarrow> oracle_state \<Rightarrow> oracle_state \<times> action list"
where
  "startRecording_onstop api token audio_then chunks r r2 st =
     (let req = Fetch (listen_request api token (concat chunks)) in
      case r of
        Rejected _ \<Rightarrow> (st, [req, Toast_error (js ''Voice recognition failed'')])
      | Resp_not_ok _ \<Rightarrow> (st, [req])
      | Resp_ok parsed \<Rightarrow>
          (case parsed of
             Inl _ \<Rightarrow> (st, [req, Toast_error (js ''Voice recognition failed'')])
           | Inr data \<Rightarrow>
               if truthy (transcription data)
               then (let (st', acts) =
                           sendMessage api token (interp (transcription data)) r2
                             (st\<lparr>audioEnabled := audio_then\<rparr>)
                     in (st'\<lparr>audioEnabled := audioEnabled st\<rparr>, req # acts))
               else (st, [req])))"

text \<open>
  An example: an oracle page with audio enabled, and an answer of the speak endpoint
  with the base64 text of the bytes 0, 1, 2 as its audio.
\<close>

definition listening :: oracle_state where
  "listening = \<lparr>messages = [], input = [], oracle_loading = False, isRecording = False,
                 isPlaying = False, audioEnabled = True\<rparr>"

definition spoken :: oracle_data where
  "spoken = \<lparr>data_text = Some (js ''The path opens.''), data_response = None,
              audio_base64 = Some (js ''AAEC'')\<rparr>"

section \<open>TarotPage\<close>

record spread =
  spread_id :: jstr
  spread_name :: jstr
  spread_cards :: nat
  spread_premium :: bool

definition spreads :: "spread list" where
  "spreads =
     [\<lparr>spread_id = js ''single'', spread_name = js ''Single Card'',
       spread_cards = 1, spread_premium = False\<rparr>,
      \<lparr>spread_id = js ''three_card'', spread_name = js ''Past/Present/Future'',
       spread_cards = 3, spread_premium = False\<rparr>,
      \<lparr>spread_id = js ''celtic_cross'', spread_name = js ''Celtic Cross'',
       spread_cards = 10, spread_premium = True\<rparr>]"

text \<open>The fields of a card and of a reading that the page shows.\<close>

record card =
  card_id :: nat
  card_name :: jstr
  reversed :: bool

record reading =
  cards :: "card list"
  interpretation_text :: jstr

record tarot_state =
  question :: jstr
  spreadType :: jstr
  reading_shown :: "reading option"
  tarot_loading :: bool
  flippedCards :: "nat list"

definition draw_request :: "jstr \<Rightarrow> jstr option \<Rightarrow> jstr \<Rightarrow> jstr \<Rightarrow> request" where
  "draw_request api token spread_type q =
     \<lparr>url = api @ js ''/api/tarot/draw'',
      req_method = POST,
      headers = [(''Content-Type'', js ''application/json''),
                 (''Authorization'', js ''Bearer '' @ interp token)],
      body = Json_body [(''spread_type'', spread_type), (''question'', q)]\<rparr>"

text \<open>
  \<open>drawCards\<close>. The state returned is the one when the handler ends; for each card of the
  answer a timer is set, whose callback \<open>flip_card\<close> runs later.
\<close>

definition drawCards ::
  "jstr \<Rightarrow> jstr option \<Rightarrow> user option \<Rightarrow> reading fetch_result \<Rightarrow> tarot_state \<Rightarrow>
   tarot_state \<times> action list"
where
  "drawCards api token user r st =
     (if \<not> premium user \<and> spreadType st = js ''celtic_cross''
      then (st, [Toast_error (js ''Celtic Cross requires Premium''), Navigate_to (js ''/premium'')])
      else
        let st1 = st\<lparr>tarot_loading := True, reading_shown := None, flippedCards := []\<rparr>;
            req = Fetch (draw_request api token (spreadType st) (question st));
            failed = (st1\<lparr>tarot_loading := False\<rparr>,
                      [req, Toast_error (js ''The cards are not aligned. Try again.'')])
        in case r of
             Rejected _ \<Rightarrow> failed
           | Resp_not_ok _ \<Rightarrow> failed
           | Resp_ok parsed \<Rightarrow>
               (case parsed of
                  Inl _ \<Rightarrow> failed
                | Inr data \<Rightarrow>
                    (st1\<lparr>reading_shown := Some data, tarot_loading := False\<rparr>,
                     req # map (\<lambda>idx. Set_timeout (500 + idx * 800)) [0..<length (cards data)])))"

definition flip_card :: "nat \<Rightarrow> tarot_state \<Rightarrow> tarot_state" where
  "flip_card idx st = st\<lparr>flippedCards := flippedCards st @ [idx]\<rparr>"

text \<open>
  What the page renders: the draw form while there is no reading, else one card element
  per card of the reading (\<open>reading.cards.map\<close>), and the interpretation once every
  card is flipped.
\<close>

record card_element =
  element_key :: nat
  face_up :: bool
  shown_card :: card

datatype tarot_view =
    Draw_form "spread list"
  | Reading_view "card_element list" "jstr option"

definition render_cards :: "reading \<Rightarrow> nat list \<Rightarrow> card_element list" where
  "render_cards rd flipped =
     map (\<lambda>(idx, c). \<lparr>element_key = idx, face_up = (idx \<in> set flipped), shown_card = c\<rparr>)
       (zip [0..<length (cards rd)] (cards rd))"

definition TarotPage :: "tarot_state \<Rightarrow> tarot_view" where
  "TarotPage st =
     (case reading_shown st of
        None \<Rightarrow> Draw_form spreads
      | Some rd \<Rightarrow>
          Reading_view (render_cards rd (flippedCards st))
            (if length (flippedCards st) = length (cards rd) then Some (interpretation_text rd) else None))"

section \<open>The card-draw endpoint\<close>

text \<open>
  Modelled from the spec: the card-draw endpoint of the backend (\<open>POST /api/tarot/draw\<close>),
  which is not among the sources. The spec describes it as a random sample without
  replacement from a fixed 78-item table, each card optionally flagged as reversed by a
  coin flip, returning exactly the number of cards of the requested spread, together with
  a free-text interpretation. The randomness is an input: \<open>deck\<close> is the table in the
  order of the shuffle, of which the first cards are drawn, and \<open>coin\<close> gives the flip for
  each position.
\<close>

definition draw_reading :: "card list \<Rightarrow> (nat \<Rightarrow> bool) \<Rightarrow> jstr \<Rightarrow> spread \<Rightarrow> reading" where
  "draw_reading deck coin txt s =
     \<lparr>cards = map (\<lambda>(i, c). c\<lparr>reversed := coin i\<rparr>)
                (zip [0..<spread_cards s] (take (spread_cards s) deck)),
      interpretation_text = txt\<rparr>"

definition tarot_draw :: "card list \<Rightarrow> (nat \<Rightarrow> bool) \<Rightarrow> jstr \<Rightarrow> spread \<Rightarrow> reading fetch_result" where
  "tarot_draw deck coin txt s = Resp_ok (Inr (draw_reading deck coin txt s))"

text \<open>An example deck of 78 cards, an example coin, and the three-card spread.\<close>

definition example_deck :: "card list" where
  "example_deck = map (\<lambda>i. \<lparr>card_id = i, card_name = js ''card'', reversed = False\<rparr>) [0..<78]"

definition example_coin :: "nat \<Rightarrow> bool" where
  "example_coin i = even i"

definition three_card :: spread where
  "three_card = \<lparr>spread_id = js ''three_card'', spread_name = js ''Past/Present/Future'',
                 spread_cards = 3, spread_premium = False\<rparr>"

definition asking :: tarot_state where
  "asking = \<lparr>question = js ''Why?'', spreadType = js ''three_card'', reading_shown = None,
             tarot_loading = False, flippedCards = []\<rparr>"

section \<open>BioScanner\<close>

text \<open>Data the frontend stores and shows without looking inside is kept as its JSON text.\<close>

type_synonym json = jstr

record scanner_state =
  scan_recording :: bool
  scan_loading :: bool
  scan_result :: "json option"

definition scan_request :: "jstr \<Rightarrow> jstr option \<Rightarrow> jstr \<Rightarrow> request" where
  "scan_request api token base64 =
     \<lparr>url = api @ js ''/api/bio/scan'',
      req_method = POST,
      headers = [(''Content-Type'', js ''application/json''),
                 (''Authorization'', js ''Bearer '' @ interp token)],
      body = Json_body [(''audio_base64'', base64)]\<rparr>"

definition startScan :: "bool \<Rightarrow> scanner_state \<Rightarrow> scanner_state \<times> action list" where
  "startScan mic st =
     (if mic then (st\<lparr>scan_recording := True\<rparr>, [Set_timeout 30000])
      else (st, [Toast_error (js ''Microphone access required'')]))"

text \<open>
  The \<open>onloadend\<close> handler set up by \<open>startScan\<close>. The file reader has turned the
  recording into a data URL; \<open>base64\<close> is the part of it after the comma, computed by
  \<open>encode\<close> (the reader's base64 encoding) from the bytes of the chunks.
\<close>

definition startScan_onloadend ::
  "jstr \<Rightarrow> jstr option \<Rightarrow> (blob \<Rightarrow> jstr) \<Rightarrow> blob list \<Rightarrow> json fetch_result \<Rightarrow>
   scanner_state \<Rightarrow> scanner_state \<times> action list"
where
  "startScan_onloadend api token encode chunks r st =
     (let base64 = encode (concat chunks);
          req = Fetch (scan_request api token base64);
          failed = (st\<lparr>scan_loading := False\<rparr>, [req, Toast_error (js ''Bio-scan analysis failed'')])
      in case r of
           Rejected _ \<Rightarrow> failed
         | Resp_not_ok _ \<Rightarrow> failed
         | Resp_ok parsed \<Rightarrow>
             (case parsed of
                Inl _ \<Rightarrow> failed
              | Inr data \<Rightarrow> (st\<lparr>scan_result := Some data, scan_loading := False\<rparr>, [req])))"

text \<open>An example stand-in for the reader's encoding: the base64 text of the bytes 0, 1, 2.\<close>

definition example_encode :: "blob \<Rightarrow> jstr" where
  "example_encode b = js ''AAEC''"

section \<open>Community\<close>

record post =
  post_user_name :: "jstr option"
  post_category :: "jstr option"
  post_content :: jstr

record feed_data =
  feed_posts :: "post list option"

record community_state =
  posts :: "post list"
  newPost :: jstr
  category :: jstr
  community_loading :: bool

definition feed_request :: "jstr \<Rightarrow> request" where
  "feed_request api =
     \<lparr>url = api @ js ''/api/community/feed'', req_method = GET, headers = [], body = No_body\<rparr>"

definition fetchPosts ::
  "jstr \<Rightarrow> feed_data fetch_result \<Rightarrow> community_state \<Rightarrow> community_state \<times> action list"
where
  "fetchPosts api r st =
     (let req = Fetch (feed_request api) in
      case r of
        Rejected _ \<Rightarrow> (st\<lparr>community_loading := False\<rparr>, [req, Console_error])
      | Resp_not_ok _ \<Rightarrow> (st\<lparr>community_loading := False\<rparr>, [req])
      | Resp_ok parsed \<Rightarrow>
          (case parsed of
             Inl _ \<Rightarrow> (st\<lparr>community_loading := False\<rparr>, [req, Console_error])
           | Inr data \<Rightarrow>
               (st\<lparr>posts := (case feed_posts data of None \<Rightarrow> [] | Some ps \<Rightarrow> ps),
                   community_loading := False\<rparr>, [req])))"

definition post_request :: "jstr \<Rightarrow> jstr option \<Rightarrow> jstr \<Rightarrow> jstr \<Rightarrow> request" where
  "post_request api token txt cat =
     \<lparr>url = api @ js ''/api/community/post'',
      req_method = POST,
      headers = [(''Content-Type'', js ''application/json''),
                 (''Authorization'', js ''Bearer '' @ interp token)],
      body = Json_body [(''content'', txt), (''category'', cat)]\<rparr>"

definition createPost ::
  "jstr \<Rightarrow> jstr option \<Rightarrow> post fetch_result \<Rightarrow> community_state \<Rightarrow> community_state \<times> action list"
where
  "createPost api token r st =
     (if trim (newPost st) = [] then (st, [])
      else
        let req = Fetch (post_request api token (newPost st) (category st)) in
        case r of
          Rejected _ \<Rightarrow> (st, [req, Toast_error (js ''Failed to share'')])
        | Resp_not_ok _ \<Rightarrow> (st, [req])
        | Resp_ok parsed \<Rightarrow>
            (case parsed of
               Inl _ \<Rightarrow> (st, [req, Toast_error (js ''Failed to share'')])
             | Inr p \<Rightarrow>
                 (st\<lparr>posts := p # posts st, newPost := []\<rparr>,
                  [req, Toast_success (js ''Your insight has been shared'')])))"

section \<open>Dashboard and Profile\<close>

record soulprint_state =
  soulprint :: "json option"
  soulprint_loading :: bool

definition soulprint_request :: "jstr \<Rightarrow> jstr option \<Rightarrow> request" where
  "soulprint_request api token =
     \<lparr>url = api @ js ''/api/profile/soulprint'',
      req_method = GET,
      headers = [(''Authorization'', js ''Bearer '' @ interp token)],
      body = No_body\<rparr>"

text \<open>\<open>fetchSoulprint\<close>, written the same way in both pages.\<close>

definition fetchSoulprint ::
  "jstr \<Rightarrow> jstr option \<Rightarrow> json fetch_result \<Rightarrow> soulprint_state \<Rightarrow> soulprint_state \<times> action list"
where
  "fetchSoulprint api token r st =
     (let req = Fetch (soulprint_request api token) in
      case r of
        Rejected _ \<Rightarrow> (st\<lparr>soulprint_loading := False\<rparr>, [req, Console_error])
      | Resp_not_ok _ \<Rightarrow> (st\<lparr>soulprint_loading := False\<rparr>, [req])
      | Resp_ok parsed \<Rightarrow>
          (case parsed of
             Inl _ \<Rightarrow> (st\<lparr>soulprint_loading := False\<rparr>, [req, Console_error])
           | Inr data \<Rightarrow> (st\<lparr>soulprint := Some data, soulprint_loading := False\<rparr>, [req])))"

section \<open>DatabasePage\<close>

record search_data =
  search_results :: "json list option"

record database_state =
  db_query :: jstr
  db_category :: jstr
  db_results :: "json list"
  db_loading :: bool

text \<open>\<open>encoded\<close> is \<open>encodeURIComponent(query)\<close>.\<close>

definition search_request :: "jstr \<Rightarrow> jstr \<Rightarrow> jstr \<Rightarrow> request" where
  "search_request api encoded cat =
     \<lparr>url = api @ js ''/api/database/search?query='' @ encoded @ js ''&category='' @ cat,
      req_method = GET, headers = [], body = No_body\<rparr>"

definition search ::
  "jstr \<Rightarrow> (jstr \<Rightarrow> jstr) \<Rightarrow> search_data fetch_result \<Rightarrow> database_state \<Rightarrow>
   database_state \<times> action list"
where
  "search api encodeURIComponent r st =
     (if trim (db_query st) = [] then (st, [])
      else
        let req = Fetch (search_request api (encodeURIComponent (db_query st)) (db_category st)) in
        case r of
          Rejected _ \<Rightarrow> (st\<lparr>db_loading := False\<rparr>, [req, Toast_error (js ''Search failed'')])
        | Resp_not_ok _ \<Rightarrow> (st\<lparr>db_loading := False\<rparr>, [req])
        | Resp_ok parsed \<Rightarrow>
            (case parsed of
               Inl _ \<Rightarrow> (st\<lparr>db_loading := False\<rparr>, [req, Toast_error (js ''Search failed'')])
             | Inr data \<Rightarrow>
                 (st\<lparr>db_results := (case search_results data of None \<Rightarrow> [] | Some rs \<Rightarrow> rs),
                     db_loading := False\<rparr>, [req])))"

section \<open>PremiumPage\<close>

record status_data =
  payment_status :: "jstr option"

definition status_request :: "jstr \<Rightarrow> jstr option \<Rightarrow> jstr option \<Rightarrow> request" where
  "status_request api sessionId token =
     \<lparr>url = api @ js ''/api/payments/status/'' @ interp sessionId,
      req_method = GET,
      headers = [(''Authorization'', js ''Bearer '' @ interp token)],
      body = No_body\<rparr>"

text \<open>
  \<open>checkPaymentStatus\<close>, run by the page's effect when the URL carries a session id.
  It returns the page's loading flag and the actions.
\<close>

definition checkPaymentStatus ::
  "jstr \<Rightarrow> jstr option \<Rightarrow> jstr option \<Rightarrow> user option \<Rightarrow> status_data fetch_result \<Rightarrow>
   bool \<times> action list"
where
  "checkPaymentStatus api sessionId token user r =
     (let req = Fetch (status_request api sessionId token) in
      case r of
        Rejected _ \<Rightarrow> (False, [req, Console_error])
      | Resp_not_ok _ \<Rightarrow> (False, [req])
      | Resp_ok parsed \<Rightarrow>
          (case parsed of
             Inl _ \<Rightarrow> (False, [req, Console_error])
           | Inr data \<Rightarrow>
               if payment_status data = Some (js ''paid'')
               then (False,
                     [req, Toast_success (js ''Welcome to Premium! Your journey expands.''),
                      Set_user (with_premium user)])
               else (False, [req])))"

record checkout_data =
  checkout_url :: jstr

definition checkout_request :: "jstr \<Rightarrow> jstr option \<Rightarrow> jstr \<Rightarrow> request" where
  "checkout_request api token origin =
     \<lparr>url = api @ js ''/api/payments/checkout'',
      req_method = POST,
      headers = [(''Content-Type'', js ''application/json''),
                 (''Authorization'', js ''Bearer '' @ interp token)],
      body = Json_body [(''package_id'', js ''premium_monthly''), (''origin_url'', origin)]\<rparr>"

text \<open>
  \<open>startCheckout\<close>: on success the browser leaves for the checkout URL and the loading flag
  stays set.
\<close>

definition startCheckout ::
  "jstr \<Rightarrow> jstr option \<Rightarrow> jstr \<Rightarrow> checkout_data fetch_result \<Rightarrow> bool \<times> action list"
where
  "startCheckout api token origin r =
     (let req = Fetch (checkout_request api token origin);
          failed = (False, [req, Toast_error (js ''Payment initialization failed'')])
      in case r of
           Rejected _ \<Rightarrow> failed
         | Resp_not_ok _ \<Rightarrow> failed
         | Resp_ok parsed \<Rightarrow>
             (case parsed of
                Inl _ \<Rightarrow> failed
              | Inr data \<Rightarrow> (True, [req, Location_assign (checkout_url data)])))"

section \<open>PaymentSuccess: polling the payment status\<close>

text \<open>
  \<open>pollPaymentStatus(attempts)\<close>. The environment \<open>env\<close> gives the answer to the request
  of each attempt. The function returns the status displayed at the end (every path ends
  in a \<open>setStatus\<close>; until then the page shows \<open>checking\<close>) and the actions of the whole
  run, the timer callbacks included: \<open>Set_timeout 2000\<close> is followed by what the callback
  does when it fires.
\<close>

function pollPaymentStatus ::
  "jstr \<Rightarrow> jstr option \<Rightarrow> jstr option \<Rightarrow> user option \<Rightarrow>
   (nat \<Rightarrow> status_data fetch_result) \<Rightarrow> nat \<Rightarrow> jstr \<times> action list"
where
  "pollPaymentStatus api sessionId token user env attempts =
     (if attempts \<ge> 5 then (js ''timeout'', [])
      else
        let req = Fetch (status_request api sessionId token);
            retry = (\<lambda>_::unit.
              let (s, acts) = pollPaymentStatus api sessionId token user env (attempts + 1)
              in (s, req # Set_timeout 2000 # acts))
        in case env attempts of
             Rejected _ \<Rightarrow> retry ()
           | Resp_not_ok _ \<Rightarrow> retry ()
           | Resp_ok parsed \<Rightarrow>
               (case parsed of
                  Inl _ \<Rightarrow> retry ()
                | Inr data \<Rightarrow>
                    if payment_status data = Some (js ''paid'')
                    then (js ''success'', [req, Set_user (with_premium user)])
                    else retry ()))"
  by pat_completeness auto
termination
  by (relation "measure (\<lambda>(api, sessionId, token, user, env, attempts). 5 - attempts)") auto

declare pollPaymentStatus.simps [simp del]

text \<open>The answer on which the poll stops: an ok response whose status field is \<open>paid\<close>.\<close>

definition paid :: "status_data fetch_result \<Rightarrow> bool" where
  "paid r =
     (case r of
        Resp_ok (Inr data) \<Rightarrow> payment_status data = Some (js ''paid'')
      | _ \<Rightarrow> False)"

text \<open>Observations on a run: the requests issued, the timer delays, the users set.\<close>

fun fetches :: "action list \<Rightarrow> request list" where
  "fetches [] = []"
| "fetches (Fetch r # as) = r # fetches as"
| "fetches (_ # as) = fetches as"

fun delays :: "action list \<Rightarrow> nat list" where
  "delays [] = []"
| "delays (Set_timeout d # as) = d # delays as"
| "delays (_ # as) = delays as"

fun users_set :: "action list \<Rightarrow> user list" where
  "users_set [] = []"
| "users_set (Set_user u # as) = u # users_set as"
| "users_set (_ # as) = users_set as"

text \<open>The audio sources played.\<close>

fun plays :: "action list \<Rightarrow> jstr list" where
  "plays [] = []"
| "plays (Play_audio u # as) = u # plays as"
| "plays (_ # as) = plays as"

text \<open>
  The timer time at which each request is issued: every \<open>Set_timeout d\<close> moves the clock
  by \<open>d\<close> milliseconds before its callback runs.
\<close>

fun request_times :: "nat \<Rightarrow> action list \<Rightarrow> nat list" where
  "request_times t [] = []"
| "request_times t (Fetch r # as) = t # request_times t as"
| "request_times t (Set_timeout d # as) = request_times (t + d) as"
| "request_times t (_ # as) = request_times t as"

text \<open>A round that does not see \<open>paid\<close>: the request, then the timer.\<close>

definition round :: "jstr \<Rightarrow> jstr option \<Rightarrow> jstr option \<Rightarrow> action list" where
  "round api sessionId token = [Fetch (status_request api sessionId token), Set_timeout 2000]"

text \<open>An example environment: the third answer is the first to report \<open>paid\<close>.\<close>

definition paid_on_third :: "nat \<Rightarrow> status_data fetch_result" where
  "paid_on_third i =
     (if i = 2 then Resp_ok (Inr \<lparr>payment_status = Some (js ''paid'')\<rparr>)
      else Resp_ok (Inr \<lparr>payment_status = Some (js ''unpaid'')\<rparr>))"

definition seeker :: user where
  "seeker = \<lparr>email = Some (js ''a@b.c''), name = Some (js ''Ada''), is_premium = False\<rparr>"

section \<open>ProtectedRoute and the route table\<close>

datatype page =
    AuthPage | Dashboard | VoiceOracle | Tarot | BioScanner | Community | Profile
  | PremiumPage | DatabasePage | PaymentSuccess | PaymentCancel

text \<open>
  Elements: the spinner, \<open><Navigate to=... replace />\<close>, the navigation bar, a page, a
  \<open><ProtectedRoute>\<close> around its child, and a fragment.
\<close>

datatype element =
    Spinner
  | Navigate jstr bool
  | Navigation
  | Page page
  | Protected element
  | Fragment "element list"

text \<open>\<open>ProtectedRoute({ children })\<close>, given the auth context.\<close>

definition ProtectedRoute :: "auth \<Rightarrow> element \<Rightarrow> element" where
  "ProtectedRoute a children =
     (if auth_loading a then Spinner
      else if auth_user a = None then Navigate (js ''/auth'') True
      else Fragment [Navigation, children])"

text \<open>Rendering an element calls \<open>ProtectedRoute\<close> where the element names it.\<close>

fun render :: "auth \<Rightarrow> element \<Rightarrow> element" where
  "render a (Protected child) = ProtectedRoute a (render a child)"
| "render a (Fragment es) = Fragment (map (render a) es)"
| "render a e = e"

text \<open>Everything an element contains, itself included.\<close>

fun parts :: "element \<Rightarrow> element list" where
  "parts (Protected child) = Protected child # parts child"
| "parts (Fragment es) = Fragment es # concat (map parts es)"
| "parts e = [e]"

text \<open>The \<open><Route>\<close> entries of \<open>App\<close>, in order: path and element.\<close>

definition routes :: "(jstr \<times> element) list" where
  "routes =
     [(js ''/auth'', Page AuthPage),
      (js ''/dashboard'', Protected (Page Dashboard)),
      (js ''/oracle'', Protected (Page VoiceOracle)),
      (js ''/tarot'', Protected (Page Tarot)),
      (js ''/bio-scan'', Protected (Page BioScanner)),
      (js ''/community'', Protected (Page Community)),
      (js ''/profile'', Protected (Page Profile)),
      (js ''/premium'', Protected (Page PremiumPage)),
      (js ''/database'', Protected (Page DatabasePage)),
      (js ''/payment/success'', Protected (Page PaymentSuccess)),
      (js ''/payment/cancel'', Protected (Page PaymentCancel)),
      (js ''/'', Navigate (js ''/dashboard'') True),
      (js ''*'', Navigate (js ''/dashboard'') True)]"

text \<open>An auth context with loading finished and nobody logged in.\<close>

definition logged_out :: auth where
  "logged_out = \<lparr>auth_user = None, auth_token = None, auth_loading = False\<rparr>"

section \<open>The requests and operations of the whole frontend\<close>

text \<open>Every place of the frontend that calls \<open>fetch\<close>, with the values it sends.\<close>

datatype api_call =
    Call_me
  | Call_login jstr jstr
  | Call_register form_data
  | Call_soulprint
  | Call_oracle bool jstr
  | Call_listen blob
  | Call_draw jstr jstr
  | Call_scan jstr
  | Call_feed
  | Call_post jstr jstr
  | Call_check_status "jstr option"
  | Call_checkout jstr
  | Call_poll_status "jstr option"
  | Call_search jstr jstr

fun request_of :: "jstr \<Rightarrow> jstr option \<Rightarrow> api_call \<Rightarrow> request" where
  "request_of api token Call_me = me_request api token"
| "request_of api token (Call_login e p) = login_request api e p"
| "request_of api token (Call_register userData) = register_request api userData"
| "request_of api token Call_soulprint = soulprint_request api token"
| "request_of api token (Call_oracle audio_on txt) = oracle_request api token audio_on txt"
| "request_of api token (Call_listen recording) = listen_request api token recording"
| "request_of api token (Call_draw spread_type q) = draw_request api token spread_type q"
| "request_of api token (Call_scan base64) = scan_request api token base64"
| "request_of api token Call_feed = feed_request api"
| "request_of api token (Call_post txt cat) = post_request api token txt cat"
| "request_of api token (Call_check_status sessionId) = status_request api sessionId token"
| "request_of api token (Call_checkout origin) = checkout_request api token origin"
| "request_of api token (Call_poll_status sessionId) = status_request api sessionId token"
| "request_of api token (Call_search encoded cat) = search_request api encoded cat"

text \<open>
  Every operation of the frontend that talks to the backend, changes the auth context or
  plays audio, with the page state it starts from and the answers of the environment.
\<close>

datatype operation =
    Op_fetchUser "user fetch_result"
  | Op_login jstr jstr "session fetch_result"
  | Op_register form_data "session fetch_result"
  | Op_logout
  | Op_handleSubmit auth_page "session fetch_result"
  | Op_fetchSoulprint soulprint_state "json fetch_result"
  | Op_sendMessage oracle_state jstr "oracle_data fetch_result"
  | Op_startRecording oracle_state bool
  | Op_startRecording_onstop oracle_state bool "blob list" "listen_data fetch_result"
      "oracle_data fetch_result"
  | Op_replay message
  | Op_drawCards tarot_state "reading fetch_result"
  | Op_startScan scanner_state bool
  | Op_startScan_onloadend scanner_state "blob \<Rightarrow> jstr" "blob list" "json fetch_result"
  | Op_fetchPosts community_state "feed_data fetch_result"
  | Op_createPost community_state "post fetch_result"
  | Op_checkPaymentStatus "jstr option" "status_data fetch_result"
  | Op_startCheckout jstr "checkout_data fetch_result"
  | Op_pollPaymentStatus "jstr option" "nat \<Rightarrow> status_data fetch_result"
  | Op_search database_state "jstr \<Rightarrow> jstr" "search_data fetch_result"

text \<open>A page's \<open>setUser\<close> calls reach the auth context.\<close>

fun apply_actions :: "action list \<Rightarrow> auth \<Rightarrow> auth" where
  "apply_actions [] a = a"
| "apply_actions (Set_user u # acts) a = apply_actions acts (a\<lparr>auth_user := Some u\<rparr>)"
| "apply_actions (_ # acts) a = apply_actions acts a"

text \<open>
  Running an operation from an auth context gives the context afterwards and the actions:
  the operations of \<open>AuthProvider\<close> change the context themselves, the operations of the
  pages read \<open>user\<close> and \<open>token\<close> from it and reach it through their actions.
\<close>

definition on_page :: "action list \<Rightarrow> auth \<Rightarrow> auth \<times> action list" where
  "on_page acts a = (apply_actions acts a, acts)"

fun run :: "jstr \<Rightarrow> operation \<Rightarrow> auth \<Rightarrow> auth \<times> action list" where
  "run api (Op_fetchUser r) a = fetchUser api r a"
| "run api (Op_login e p r) a = snd (login api e p r a)"
| "run api (Op_register userData r) a = snd (register api userData r a)"
| "run api Op_logout a = logout a"
| "run api (Op_handleSubmit p r) a = snd (handleSubmit api r p a)"
| "run api (Op_fetchSoulprint st r) a = on_page (snd (fetchSoulprint api (auth_token a) r st)) a"
| "run api (Op_sendMessage st txt r) a = on_page (snd (sendMessage api (auth_token a) txt r st)) a"
| "run api (Op_startRecording st mic) a = on_page (snd (startRecording mic st)) a"
| "run api (Op_startRecording_onstop st audio_then chunks r r2) a =
     on_page (snd (startRecording_onstop api (auth_token a) audio_then chunks r r2 st)) a"
| "run api (Op_replay msg) a = on_page (replay msg) a"
| "run api (Op_drawCards st r) a =
     on_page (snd (drawCards api (auth_token a) (auth_user a) r st)) a"
| "run api (Op_startScan st mic) a = on_page (snd (startScan mic st)) a"
| "run api (Op_startScan_onloadend st encode chunks r) a =
     on_page (snd (startScan_onloadend api (auth_token a) encode chunks r st)) a"
| "run api (Op_fetchPosts st r) a = on_page (snd (fetchPosts api r st)) a"
| "run api (Op_createPost st r) a = on_page (snd (createPost api (auth_token a) r st)) a"
| "run api (Op_checkPaymentStatus sessionId r) a =
     on_page (snd (checkPaymentStatus api sessionId (auth_token a) (auth_user a) r)) a"
| "run api (Op_startCheckout origin r) a =
     on_page (snd (startCheckout api (auth_token a) origin r)) a"
| "run api (Op_pollPaymentStatus sessionId env) a =
     on_page (snd (pollPaymentStatus api sessionId (auth_token a) (auth_user a) env 0)) a"
| "run api (Op_search st encodeURIComponent r) a =
     on_page (snd (search api encodeURIComponent r st)) a"

text \<open>
  An example: a signed-in context, and a recording that is transcribed and answered with
  audio.
\<close>

definition signed_in :: auth where
  "signed_in = \<lparr>auth_user = Some seeker, auth_token = Some (js ''tok''), auth_loading = False\<rparr>"

definition heard :: operation where
  "heard = Op_startRecording_onstop listening True [[0, 1], [2]]
             (Resp_ok (Inr \<lparr>transcription = Some (js ''Why?'')\<rparr>)) (Resp_ok (Inr spoken))"

section \<open>Properties of the payment poll\<close>

lemma poll_step:
  "attempts < 5 \<Longrightarrow>
   pollPaymentStatus api sid tok usr env attempts =
     (if paid (env attempts)
      then (js ''success'', [Fetch (status_request api sid tok), Set_user (with_premium usr)])
      else (fst (pollPaymentStatus api sid tok usr env (Suc attempts)),
            Fetch (status_request api sid tok) # Set_timeout 2000 #
            snd (pollPaymentStatus api sid tok usr env (Suc attempts))))"
  by (subst pollPaymentStatus.simps)
     (auto simp: paid_def Let_def split: fetch_result.splits sum.splits prod.splits)

lemma poll_done: "5 \<le> attempts \<Longrightarrow> pollPaymentStatus api sid tok usr env attempts = (js ''timeout'', [])"
  by (subst pollPaymentStatus.simps) simp

lemma poll_unpaid:
  "attempts \<le> 5 \<Longrightarrow> \<forall>i. attempts \<le> i \<and> i < 5 \<longrightarrow> \<not> paid (env i) \<Longrightarrow>
   pollPaymentStatus api sid tok usr env attempts =
     (js ''timeout'', concat (replicate (5 - attempts) (round api sid tok)))"
proof (induction "5 - attempts" arbitrary: attempts)
  case 0
  then show ?case by (simp add: poll_done)
next
  case (Suc n)
  then have lt: "attempts < 5" and n: "n = 5 - Suc attempts" by arith+
  have rest: "pollPaymentStatus api sid tok usr env (Suc attempts) =
      (js ''timeout'', concat (replicate (5 - Suc attempts) (round api sid tok)))"
    using Suc.hyps(1)[OF n] Suc.prems lt by auto
  have "\<not> paid (env attempts)" using Suc.prems lt by auto
  moreover have "5 - attempts = Suc (5 - Suc attempts)" using lt by arith
  ultimately show ?case
    by (simp add: poll_step[OF lt] rest round_def)
qed

lemma poll_paid_at:
  "attempts \<le> k \<Longrightarrow> k < 5 \<Longrightarrow> paid (env k) \<Longrightarrow>
   \<forall>i. attempts \<le> i \<and> i < k \<longrightarrow> \<not> paid (env i) \<Longrightarrow>
   pollPaymentStatus api sid tok usr env attempts =
     (js ''success'',
      concat (replicate (k - attempts) (round api sid tok)) @
      [Fetch (status_request api sid tok), Set_user (with_premium usr)])"
proof (induction "k - attempts" arbitrary: attempts)
  case 0
  then have "attempts = k" by simp
  with 0 show ?case by (simp add: poll_step)
next
  case (Suc n)
  then have lt: "attempts < k" and n: "n = k - Suc attempts" by arith+
  have rest: "pollPaymentStatus api sid tok usr env (Suc attempts) =
      (js ''success'',
       concat (replicate (k - Suc attempts) (round api sid tok)) @
       [Fetch (status_request api sid tok), Set_user (with_premium usr)])"
    using Suc.hyps(1)[OF n] Suc.prems lt by auto
  have "\<not> paid (env attempts)" using Suc.prems lt by auto
  moreover have "k - attempts = Suc (k - Suc attempts)" using lt by arith
  moreover have "attempts < 5" using lt Suc.prems by arith
  ultimately show ?case
    by (simp add: poll_step rest round_def)
qed

lemma fetches_rounds: "fetches (concat (replicate n (round api sid tok)) @ rest) =
   replicate n (status_request api sid tok) @ fetches rest"
  by (induction n) (simp_all add: round_def)

lemma delays_rounds: "delays (concat (replicate n (round api sid tok)) @ rest) =
   replicate n 2000 @ delays rest"
  by (induction n) (simp_all add: round_def)

lemma users_set_rounds: "users_set (concat (replicate n (round api sid tok)) @ rest) = users_set rest"
  by (induction n) (simp_all add: round_def)

lemma request_times_rounds:
  "request_times t (concat (replicate n (round api sid tok)) @ rest) =
   map (\<lambda>i. t + i * 2000) [0..<n] @ request_times (t + n * 2000) rest"
proof (induction n arbitrary: t)
  case 0 show ?case by simp
next
  case (Suc n)
  have "map (\<lambda>i. t + i * 2000) [0..<Suc n] = t # map (\<lambda>i. t + 2000 + i * 2000) [0..<n]"
    by (simp add: upt_conv_Cons map_Suc_upt[symmetric] del: upt_Suc)
  then show ?case using Suc[of "t + 2000"] by (simp add: round_def add.assoc)
qed

text \<open>Every run is of one of the two shapes.\<close>

lemma poll_shape:
  "(\<forall>i<5. \<not> paid (env i)) \<and>
     pollPaymentStatus api sid tok usr env 0 =
       (js ''timeout'', concat (replicate 5 (round api sid tok)))
   \<or> (\<exists>k<5. paid (env k) \<and> (\<forall>i<k. \<not> paid (env i)) \<and>
     pollPaymentStatus api sid tok usr env 0 =
       (js ''success'', concat (replicate k (round api sid tok)) @
          [Fetch (status_request api sid tok), Set_user (with_premium usr)]))"
proof (cases "\<exists>i<5. paid (env i)")
  case False
  then have "pollPaymentStatus api sid tok usr env 0 =
       (js ''timeout'', concat (replicate 5 (round api sid tok)))"
    using poll_unpaid[of 0 env api sid tok usr] by simp
  with False show ?thesis by blast
next
  case True
  define k where "k = (LEAST i. i < 5 \<and> paid (env i))"
  from True obtain j where "j < 5 \<and> paid (env j)" by blast
  then have k: "k < 5 \<and> paid (env k)" unfolding k_def by (rule LeastI)
  have least: "\<forall>i<k. \<not> paid (env i)"
  proof (intro allI impI)
    fix i assume "i < k"
    then have "\<not> (i < 5 \<and> paid (env i))" unfolding k_def by (rule not_less_Least)
    moreover have "i < 5" using \<open>i < k\<close> k by arith
    ultimately show "\<not> paid (env i)" by simp
  qed
  have "pollPaymentStatus api sid tok usr env 0 =
       (js ''success'', concat (replicate k (round api sid tok)) @
          [Fetch (status_request api sid tok), Set_user (with_premium usr)])"
    using poll_paid_at[of 0 k env api sid tok usr] k least by simp
  with k least show ?thesis by blast
qed

text \<open>
  C1. Every run of \<open>pollPaymentStatus\<close> issues at most 5 status requests; the requests
  are issued at timer times 0, 2000, 4000, ... (one constant 2000 ms delay between
  consecutive attempts, no other delay is ever used); and when none of the five answers
  is an ok response with status \<open>paid\<close>, all five requests are made and the run ends with
  the displayed status \<open>timeout\<close>.
\<close>

theorem poll_bounded_constant_delay:
  "length (fetches (snd (pollPaymentStatus api sid tok usr env 0))) \<le> 5
   \<and> request_times 0 (snd (pollPaymentStatus api sid tok usr env 0)) =
       map (\<lambda>i. i * 2000) [0..<length (fetches (snd (pollPaymentStatus api sid tok usr env 0)))]
   \<and> set (delays (snd (pollPaymentStatus api sid tok usr env 0))) \<subseteq> {2000}
   \<and> ((\<forall>i<5. \<not> paid (env i)) \<longrightarrow>
        fst (pollPaymentStatus api sid tok usr env 0) = js ''timeout'' \<and>
        length (fetches (snd (pollPaymentStatus api sid tok usr env 0))) = 5)"
  using poll_shape[of env api sid tok usr]
  by (auto simp: fetches_rounds[where rest="[]", simplified] fetches_rounds
       delays_rounds[where rest="[]", simplified] delays_rounds
       request_times_rounds[where rest="[]", simplified] request_times_rounds)

theorem poll_bounded_constant_delay_witness:
  "\<not> paid (Rejected (js ''Failed to fetch'')) \<and>
   fst (pollPaymentStatus [] (Some (js ''cs_1'')) (Some (js ''t'')) None
          (\<lambda>_. Rejected (js ''Failed to fetch'')) 0) = js ''timeout'' \<and>
   length (fetches (snd (pollPaymentStatus [] (Some (js ''cs_1'')) (Some (js ''t'')) None
          (\<lambda>_. Rejected (js ''Failed to fetch'')) 0))) = 5"
  using poll_bounded_constant_delay[of "[]" "Some (js ''cs_1'')" "Some (js ''t'')" None
          "\<lambda>_. Rejected (js ''Failed to fetch'')"]
  by (simp add: paid_def)

lemma with_premium_is_premium: "is_premium (with_premium usr)"
  by (simp add: with_premium_def split: option.split)

text \<open>
  C2. In a polling run the premium flag is set exactly once when a \<open>paid\<close> answer arrives
  and never otherwise: if attempt \<open>k\<close> is the first with an ok \<open>paid\<close> answer, the run is
  \<open>k\<close> unsuccessful rounds, the request of attempt \<open>k\<close>, and one \<open>setUser\<close> with
  \<open>is_premium\<close> true, after which nothing more happens; the list of all \<open>setUser\<close> calls
  of a run is that single call when some answer among the five is \<open>paid\<close>, and empty when
  none is.
\<close>

theorem poll_sets_premium_once:
  "(\<forall>k<5. paid (env k) \<and> (\<forall>i<k. \<not> paid (env i)) \<longrightarrow>
      pollPaymentStatus api sid tok usr env 0 =
        (js ''success'',
         concat (replicate k (round api sid tok)) @
         [Fetch (status_request api sid tok), Set_user (with_premium usr)]))
   \<and> users_set (snd (pollPaymentStatus api sid tok usr env 0)) =
        (if \<exists>i<5. paid (env i) then [with_premium usr] else [])
   \<and> is_premium (with_premium usr)"
proof (intro conjI allI impI)
  fix k assume "k < 5" and "paid (env k) \<and> (\<forall>i<k. \<not> paid (env i))"
  then show "pollPaymentStatus api sid tok usr env 0 =
        (js ''success'',
         concat (replicate k (round api sid tok)) @
         [Fetch (status_request api sid tok), Set_user (with_premium usr)])"
    using poll_paid_at[of 0 k env api sid tok usr] by simp
next
  show "users_set (snd (pollPaymentStatus api sid tok usr env 0)) =
        (if \<exists>i<5. paid (env i) then [with_premium usr] else [])"
    using poll_shape[of env api sid tok usr]
    by (auto simp: users_set_rounds[where rest="[]", simplified] users_set_rounds)
next
  show "is_premium (with_premium usr)" by (rule with_premium_is_premium)
qed

theorem poll_sets_premium_once_witness:
  "paid (paid_on_third 2) \<and> \<not> paid (paid_on_third 0) \<and> \<not> paid (paid_on_third 1) \<and>
   pollPaymentStatus [] (Some (js ''cs_1'')) (Some (js ''t'')) (Some seeker) paid_on_third 0 =
     (js ''success'',
      concat (replicate 2 (round [] (Some (js ''cs_1'')) (Some (js ''t'')))) @
      [Fetch (status_request [] (Some (js ''cs_1'')) (Some (js ''t''))),
       Set_user (with_premium (Some seeker))]) \<and>
   users_set (snd (pollPaymentStatus [] (Some (js ''cs_1'')) (Some (js ''t'')) (Some seeker) paid_on_third 0)) =
     [with_premium (Some seeker)]"
proof -
  have p: "paid (paid_on_third 2)" by (simp add: paid_on_third_def paid_def)
  have np: "\<forall>i<2. \<not> paid (paid_on_third i)" by (simp add: paid_on_third_def paid_def js_def)
  have ex: "\<exists>i<5. paid (paid_on_third i)" using p by (intro exI[of _ 2]) simp
  show ?thesis
    using poll_sets_premium_once[of paid_on_third "[]" "Some (js ''cs_1'')" "Some (js ''t'')" "Some seeker"]
      p np ex
    by (simp add: less_Suc_eq numeral_2_eq_2 del: replicate.simps)
qed

section \<open>Guards of the page handlers\<close>

lemma trim_whitespace:
  assumes "\<forall>c\<in>set s. js_whitespace c"
  shows "trim s = []"
proof -
  have d: "dropWhile js_whitespace s = []" using assms by simp
  show ?thesis unfolding trim_def d by simp
qed

text \<open>
  C9. When the user is not premium and the selected spread is \<open>celtic_cross\<close>, \<open>drawCards\<close>
  issues no request, returns the page state as it was (the current reading and the flipped
  cards included), shows the premium-required error and navigates to \<open>/premium\<close>.
\<close>

theorem celtic_cross_needs_premium:
  "\<not> premium user \<Longrightarrow> spreadType st = js ''celtic_cross'' \<Longrightarrow>
   drawCards api token user r st =
     (st, [Toast_error (js ''Celtic Cross requires Premium''), Navigate_to (js ''/premium'')])
   \<and> fetches (snd (drawCards api token user r st)) = []
   \<and> reading_shown (fst (drawCards api token user r st)) = reading_shown st
   \<and> flippedCards (fst (drawCards api token user r st)) = flippedCards st"
  by (simp add: drawCards_def)

theorem celtic_cross_needs_premium_witness:
  "drawCards [] (Some (js ''t'')) (Some seeker) (Rejected (js ''Failed to fetch''))
      \<lparr>question = js ''Why?'', spreadType = js ''celtic_cross'', reading_shown = None,
       tarot_loading = False, flippedCards = []\<rparr> =
     (\<lparr>question = js ''Why?'', spreadType = js ''celtic_cross'', reading_shown = None,
       tarot_loading = False, flippedCards = []\<rparr>,
      [Toast_error (js ''Celtic Cross requires Premium''), Navigate_to (js ''/premium'')])"
proof -
  have 1: "\<not> premium (Some seeker)" by (simp add: premium_def seeker_def)
  have 2: "spreadType \<lparr>question = js ''Why?'', spreadType = js ''celtic_cross'', reading_shown = None,
       tarot_loading = False, flippedCards = []\<rparr> = js ''celtic_cross''" by simp
  show ?thesis using celtic_cross_needs_premium[OF 1 2] by simp
qed

text \<open>
  C10. For every input that is empty or consists only of white space, \<open>sendMessage\<close> and
  \<open>createPost\<close> return at once: no action at all (so no request), and the page state
  (messages, loading flag, posts, input fields) is the one before.
\<close>

theorem blank_input_is_ignored:
  "\<forall>c\<in>set txt. js_whitespace c \<Longrightarrow>
   sendMessage api token txt r st = (st, []) \<and>
   (newPost cst = txt \<longrightarrow> createPost api token r' cst = (cst, []))"
  by (simp add: sendMessage_def createPost_def trim_whitespace)

theorem blank_input_is_ignored_witness:
  "sendMessage [] (Some (js ''t'')) [0x20, 0x09, 0x3000] (Rejected [])
      \<lparr>messages = [], input = [0x20, 0x09, 0x3000], oracle_loading = False, isRecording = False,
       isPlaying = False, audioEnabled = True\<rparr> =
     (\<lparr>messages = [], input = [0x20, 0x09, 0x3000], oracle_loading = False, isRecording = False,
       isPlaying = False, audioEnabled = True\<rparr>, []) \<and>
   createPost [] (Some (js ''t'')) (Rejected [])
      \<lparr>posts = [], newPost = [0x20, 0x09, 0x3000], category = js ''general'',
       community_loading = False\<rparr> =
     (\<lparr>posts = [], newPost = [0x20, 0x09, 0x3000], category = js ''general'',
       community_loading = False\<rparr>, [])"
proof -
  have ws: "\<forall>c\<in>set [0x20, 0x09, 0x3000 :: 16 word]. js_whitespace c"
    by (simp add: js_whitespace_def)
  show ?thesis
    using blank_input_is_ignored[OF ws, of "[]" "Some (js ''t'')" "Rejected []" _
        "\<lparr>posts = [], newPost = [0x20, 0x09, 0x3000], category = js ''general'',
          community_loading = False\<rparr>" "Rejected []"]
    by simp
qed

section \<open>Protected routes\<close>

text \<open>
  C4. For every protected route of the route table, when loading is finished and there is
  no authenticated user, what is rendered is the replace-navigation to \<open>/auth\<close>; it
  contains neither the navigation bar nor any page.
\<close>

theorem protected_route_redirects:
  "(path, Protected child) \<in> set routes \<Longrightarrow> \<not> auth_loading a \<Longrightarrow> auth_user a = None \<Longrightarrow>
   render a (Protected child) = Navigate (js ''/auth'') True
   \<and> Navigation \<notin> set (parts (render a (Protected child)))
   \<and> (\<forall>p. Page p \<notin> set (parts (render a (Protected child))))"
  by (simp add: ProtectedRoute_def)

theorem protected_route_redirects_witness:
  "render logged_out (Protected (Page Tarot)) = Navigate (js ''/auth'') True
   \<and> Navigation \<notin> set (parts (render logged_out (Protected (Page Tarot))))
   \<and> Page Tarot \<notin> set (parts (render logged_out (Protected (Page Tarot))))"
proof -
  have 1: "(js ''/tarot'', Protected (Page Tarot)) \<in> set routes" by (simp add: routes_def)
  have 2: "\<not> auth_loading logged_out" and 3: "auth_user logged_out = None"
    by (simp_all add: logged_out_def)
  show ?thesis using protected_route_redirects[OF 1 2 3] by blast
qed

section \<open>The requests of the frontend\<close>

lemma fetches_append: "fetches (xs @ ys) = fetches xs @ fetches ys"
  by (induction xs rule: fetches.induct) simp_all

lemma fetches_fetchUser: "fetches (snd (fetchUser api r a)) = [me_request api (auth_token a)]"
  by (simp add: fetchUser_def logout_def Let_def split: fetch_result.split sum.split)

lemma fetches_login: "fetches (snd (snd (login api e p r a))) = [login_request api e p]"
  by (simp add: login_def store_session_def Let_def split: fetch_result.split sum.split)

lemma fetches_register: "fetches (snd (snd (register api u r a))) = [register_request api u]"
  by (simp add: register_def store_session_def Let_def split: fetch_result.split sum.split)

lemma fetches_handleSubmit:
  "fetches (snd (snd (handleSubmit api r p a))) =
     [if isLogin p then login_request api (form_email (formData p)) (form_password (formData p))
      else register_request api (formData p)]"
proof (cases "isLogin p")
  case True
  obtain res a' acts where l: "login api (form_email (formData p)) (form_password (formData p)) r a = (res, a', acts)"
    by (cases "login api (form_email (formData p)) (form_password (formData p)) r a") auto
  have "fetches acts = [login_request api (form_email (formData p)) (form_password (formData p))]"
    using fetches_login[of api "form_email (formData p)" "form_password (formData p)" r a] l by simp
  then show ?thesis using True l
    by (simp add: handleSubmit_def fetches_append split: sum.split)
next
  case False
  obtain res a' acts where l: "register api (formData p) r a = (res, a', acts)"
    by (cases "register api (formData p) r a") auto
  have "fetches acts = [register_request api (formData p)]"
    using fetches_register[of api "formData p" r a] l by simp
  then show ?thesis using False l
    by (simp add: handleSubmit_def fetches_append split: sum.split)
qed

lemma fetches_fetchSoulprint:
  "fetches (snd (fetchSoulprint api token r st)) = [soulprint_request api token]"
  by (simp add: fetchSoulprint_def Let_def split: fetch_result.split sum.split)

lemma fetches_sendMessage:
  "fetches (snd (sendMessage api token txt r st)) =
     (if trim txt = [] then [] else [oracle_request api token (audioEnabled st) txt])"
  by (simp add: sendMessage_def playAudio_def Let_def split: fetch_result.split sum.split)

lemma fetches_startRecording: "fetches (snd (startRecording mic st)) = []"
  by (simp add: startRecording_def)

lemma fetches_replay: "fetches (replay msg) = []"
  by (simp add: replay_def playAudio_def)

lemma fetches_startRecording_onstop:
  "x \<in> set (fetches (snd (startRecording_onstop api token audio_then chunks r r2 st))) \<Longrightarrow>
   x = listen_request api token (concat chunks) \<or>
   (\<exists>t. x = oracle_request api token audio_then t)"
  by (auto simp: startRecording_onstop_def Let_def case_prod_unfold fetches_sendMessage
      split: fetch_result.splits sum.splits if_splits)

lemma fetches_drawCards:
  "set (fetches (snd (drawCards api token user r st))) \<subseteq>
     {draw_request api token (spreadType st) (question st)}"
proof -
  have t: "fetches (map (\<lambda>idx. Set_timeout (500 + idx * 800)) xs) = []" for xs :: "nat list"
    by (induction xs) simp_all
  show ?thesis
    by (simp add: drawCards_def Let_def t split: fetch_result.split sum.split)
qed

lemma fetches_startScan: "fetches (snd (startScan mic st)) = []"
  by (simp add: startScan_def)

lemma fetches_startScan_onloadend:
  "fetches (snd (startScan_onloadend api token encode chunks r st)) =
     [scan_request api token (encode (concat chunks))]"
  by (simp add: startScan_onloadend_def Let_def split: fetch_result.split sum.split)

lemma fetches_fetchPosts: "fetches (snd (fetchPosts api r st)) = [feed_request api]"
  by (simp add: fetchPosts_def Let_def split: fetch_result.split sum.split)

lemma fetches_createPost:
  "fetches (snd (createPost api token r st)) =
     (if trim (newPost st) = [] then [] else [post_request api token (newPost st) (category st)])"
  by (simp add: createPost_def Let_def split: fetch_result.split sum.split)

lemma fetches_checkPaymentStatus:
  "fetches (snd (checkPaymentStatus api sessionId token user r)) =
     [status_request api sessionId token]"
  by (simp add: checkPaymentStatus_def Let_def split: fetch_result.split sum.split)

lemma fetches_startCheckout:
  "fetches (snd (startCheckout api token origin r)) = [checkout_request api token origin]"
  by (simp add: startCheckout_def Let_def split: fetch_result.split sum.split)

lemma fetches_pollPaymentStatus:
  "set (fetches (snd (pollPaymentStatus api sessionId token user env 0))) \<subseteq>
     {status_request api sessionId token}"
  using poll_shape[of env api sessionId token user]
  by (auto simp: fetches_rounds[where rest="[]", simplified] fetches_rounds)

lemma fetches_search:
  "fetches (snd (search api enc r st)) =
     (if trim (db_query st) = [] then []
      else [search_request api (enc (db_query st)) (db_category st)])"
  by (simp add: search_def Let_def split: fetch_result.split sum.split)

lemma request_of_range:
  "me_request api token \<in> range (request_of api token)"
  "login_request api e p \<in> range (request_of api token)"
  "register_request api u \<in> range (request_of api token)"
  "soulprint_request api token \<in> range (request_of api token)"
  "oracle_request api token audio_on txt \<in> range (request_of api token)"
  "listen_request api token recording \<in> range (request_of api token)"
  "draw_request api token spread_type q \<in> range (request_of api token)"
  "scan_request api token base64 \<in> range (request_of api token)"
  "feed_request api \<in> range (request_of api token)"
  "post_request api token txt cat \<in> range (request_of api token)"
  "status_request api sessionId token \<in> range (request_of api token)"
  "checkout_request api token origin \<in> range (request_of api token)"
  "search_request api encoded cat \<in> range (request_of api token)"
  by (metis request_of.simps rangeI)+

text \<open>Every request of every operation is one of the calls of \<open>request_of\<close>.\<close>

lemma fetches_run:
  "set (fetches (snd (run api op a))) \<subseteq> range (request_of api (auth_token a))"
proof (cases op)
  case (Op_startRecording_onstop st audio_then chunks r r2)
  have "x \<in> range (request_of api (auth_token a))"
    if "x \<in> set (fetches (snd (startRecording_onstop api (auth_token a) audio_then chunks r r2 st)))"
    for x
    using fetches_startRecording_onstop[OF that] request_of_range(5,6) by metis
  with Op_startRecording_onstop show ?thesis
    by (auto simp: on_page_def)
next
  case (Op_drawCards st r)
  then show ?thesis
    using fetches_drawCards[of api "auth_token a" "auth_user a" r st]
    by (auto simp: on_page_def request_of_range)
next
  case (Op_pollPaymentStatus sessionId env)
  then show ?thesis
    using fetches_pollPaymentStatus[of api sessionId "auth_token a" "auth_user a" env]
    by (auto simp: on_page_def request_of_range)
qed (simp_all add: on_page_def request_of_range logout_def
      fetches_fetchUser fetches_login fetches_register fetches_handleSubmit
      fetches_fetchSoulprint fetches_sendMessage fetches_startRecording fetches_replay
      fetches_startScan
      fetches_startScan_onloadend fetches_fetchPosts fetches_createPost
      fetches_checkPaymentStatus fetches_startCheckout fetches_search)

section \<open>Authorization headers and payloads\<close>

text \<open>
  C6, as stated, fails: the request of the community feed carries no \<open>Authorization\<close>
  header, although a token is stored.
\<close>

theorem feed_request_without_token:
  "fetches (snd (run (js ''https://yky.example'')
      (Op_fetchPosts \<lparr>posts = [], newPost = [], category = js ''general'', community_loading = True\<rparr>
         (Resp_ok (Inr \<lparr>feed_posts = Some []\<rparr>)))
      \<lparr>auth_user = Some seeker, auth_token = Some (js ''tok''), auth_loading = False\<rparr>)) =
     [feed_request (js ''https://yky.example'')]
   \<and> map_of (headers (feed_request (js ''https://yky.example''))) ''Authorization'' = None"
  by (simp add: on_page_def fetchPosts_def feed_request_def)

text \<open>
  C6, amended. Every request of every operation is one of the calls listed in
  \<open>request_of\<close>, and with the token \<open>t\<close> in the auth context it carries the header
  \<open>Authorization: Bearer t\<close>, except the requests of login, register, the community feed
  and the database search, which carry no \<open>Authorization\<close> header.
\<close>

theorem bearer_token_on_private_requests:
  "r \<in> set (fetches (snd (run api op a))) \<Longrightarrow> auth_token a = Some t \<Longrightarrow>
   \<exists>call. r = request_of api (Some t) call \<and>
     map_of (headers r) ''Authorization'' =
       (case call of
          Call_login _ _ \<Rightarrow> None
        | Call_register _ \<Rightarrow> None
        | Call_feed \<Rightarrow> None
        | Call_search _ _ \<Rightarrow> None
        | _ \<Rightarrow> Some (js ''Bearer '' @ t))"
proof -
  assume "r \<in> set (fetches (snd (run api op a)))" and t: "auth_token a = Some t"
  then obtain call where r: "r = request_of api (Some t) call"
    using fetches_run[of api op a] by auto
  have "map_of (headers (request_of api (Some t) call)) ''Authorization'' =
       (case call of
          Call_login _ _ \<Rightarrow> None
        | Call_register _ \<Rightarrow> None
        | Call_feed \<Rightarrow> None
        | Call_search _ _ \<Rightarrow> None
        | _ \<Rightarrow> Some (js ''Bearer '' @ t))"
    by (cases call)
       (simp_all add: me_request_def login_request_def register_request_def
          soulprint_request_def oracle_request_def listen_request_def draw_request_def
          scan_request_def feed_request_def post_request_def status_request_def
          checkout_request_def search_request_def interp_def)
  with r show ?thesis by blast
qed

theorem bearer_token_on_private_requests_witness:
  "soulprint_request [] (Some (js ''tok'')) \<in>
     set (fetches (snd (run [] (Op_fetchSoulprint \<lparr>soulprint = None, soulprint_loading = True\<rparr>
        (Rejected (js ''Failed to fetch'')))
        \<lparr>auth_user = Some seeker, auth_token = Some (js ''tok''), auth_loading = False\<rparr>)))
   \<and> (\<exists>call. soulprint_request [] (Some (js ''tok'')) = request_of [] (Some (js ''tok'')) call \<and>
     map_of (headers (soulprint_request [] (Some (js ''tok'')))) ''Authorization'' =
       (case call of
          Call_login _ _ \<Rightarrow> None
        | Call_register _ \<Rightarrow> None
        | Call_feed \<Rightarrow> None
        | Call_search _ _ \<Rightarrow> None
        | _ \<Rightarrow> Some (js ''Bearer '' @ js ''tok'')))"
proof -
  have 1: "soulprint_request [] (Some (js ''tok'')) \<in>
     set (fetches (snd (run [] (Op_fetchSoulprint \<lparr>soulprint = None, soulprint_loading = True\<rparr>
        (Rejected (js ''Failed to fetch'')))
        \<lparr>auth_user = Some seeker, auth_token = Some (js ''tok''), auth_loading = False\<rparr>)))"
    by (simp add: on_page_def fetches_fetchSoulprint)
  have 2: "auth_token \<lparr>auth_user = Some seeker, auth_token = Some (js ''tok''), auth_loading = False\<rparr>
     = Some (js ''tok'')" by simp
  show ?thesis using bearer_token_on_private_requests[OF 1 2] 1 by blast
qed

text \<open>
  C8, as stated, fails: the bio-scan upload is a JSON body with the recording as base64
  text, sent with the JSON content type.
\<close>

theorem scan_upload_is_json:
  "fetches (snd (run (js ''https://yky.example'')
      (Op_startScan_onloadend \<lparr>scan_recording = False, scan_loading = False, scan_result = None\<rparr>
         example_encode [[0, 1], [2]] (Rejected (js ''Failed to fetch'')))
      \<lparr>auth_user = Some seeker, auth_token = Some (js ''tok''), auth_loading = False\<rparr>)) =
     [scan_request (js ''https://yky.example'') (Some (js ''tok'')) (js ''AAEC'')]
   \<and> body (scan_request (js ''https://yky.example'') (Some (js ''tok'')) (js ''AAEC'')) =
       Json_body [(''audio_base64'', js ''AAEC'')]
   \<and> map_of (headers (scan_request (js ''https://yky.example'') (Some (js ''tok'')) (js ''AAEC'')))
         ''Content-Type'' = Some (js ''application/json'')"
  by (simp add: on_page_def startScan_onloadend_def scan_request_def example_encode_def)

lemma plays_append: "plays (xs @ ys) = plays xs @ plays ys"
  by (induction xs rule: plays.induct) simp_all

lemma plays_rounds: "plays (concat (replicate n (round api sid tok)) @ rest) = plays rest"
  by (induction n) (simp_all add: round_def)

lemma plays_sendMessage:
  "plays (snd (sendMessage api token txt r st)) =
     (if trim txt \<noteq> [] \<and> audioEnabled st
      then (case r of
              Resp_ok (Inr data) \<Rightarrow>
                if truthy (audio_base64 data)
                then [js ''data:audio/mp3;base64,'' @ interp (audio_base64 data)] else []
            | _ \<Rightarrow> [])
      else [])"
  by (simp add: sendMessage_def playAudio_def Let_def split: fetch_result.split sum.split)

lemma truthy_Some: "truthy v \<Longrightarrow> \<exists>b. v = Some b \<and> b \<noteq> [] \<and> interp v = b"
  by (cases v) (simp_all add: truthy_def interp_def)

lemma plays_sendMessage_cases:
  "plays (snd (sendMessage api token txt r st)) = [] \<or>
   (\<exists>data. r = Resp_ok (Inr data) \<and> truthy (audio_base64 data) \<and>
      plays (snd (sendMessage api token txt r st)) =
        [js ''data:audio/mp3;base64,'' @ interp (audio_base64 data)])"
  by (simp add: plays_sendMessage split: fetch_result.split sum.split)

lemma plays_sendMessage_source:
  assumes "u \<in> set (plays (snd (sendMessage api token txt r st)))"
  shows "\<exists>b. b \<noteq> [] \<and> u = js ''data:audio/mp3;base64,'' @ b \<and>
           (\<exists>data. r = Resp_ok (Inr data) \<and> audio_base64 data = Some b)"
proof -
  from assms have "plays (snd (sendMessage api token txt r st)) \<noteq> []" by auto
  with plays_sendMessage_cases[of api token "txt" r st]
  obtain data where r: "r = Resp_ok (Inr data)" and t: "truthy (audio_base64 data)"
      and p: "plays (snd (sendMessage api token txt r st)) =
        [js ''data:audio/mp3;base64,'' @ interp (audio_base64 data)]"
    by blast
  from assms p have u: "u = js ''data:audio/mp3;base64,'' @ interp (audio_base64 data)" by simp
  from truthy_Some[OF t] obtain b where "audio_base64 data = Some b" "b \<noteq> []"
      "interp (audio_base64 data) = b" by blast
  with r u show ?thesis by auto
qed

lemma plays_startRecording_onstop_cases:
  "plays (snd (startRecording_onstop api token audio_then chunks r r2 st)) = [] \<or>
   (\<exists>t. plays (snd (startRecording_onstop api token audio_then chunks r r2 st)) =
      plays (snd (sendMessage api token t r2 (st\<lparr>audioEnabled := audio_then\<rparr>))))"
  by (auto simp: startRecording_onstop_def Let_def case_prod_unfold
      split: fetch_result.split sum.split)

lemma plays_startRecording_onstop:
  assumes "u \<in> set (plays (snd (startRecording_onstop api token audio_then chunks r r2 st)))"
  shows "\<exists>b. b \<noteq> [] \<and> u = js ''data:audio/mp3;base64,'' @ b \<and>
           (\<exists>data. r2 = Resp_ok (Inr data) \<and> audio_base64 data = Some b)"
proof -
  from assms have "plays (snd (startRecording_onstop api token audio_then chunks r r2 st)) \<noteq> []"
    by auto
  with plays_startRecording_onstop_cases[of api token audio_then chunks r r2 st]
  obtain t where "plays (snd (startRecording_onstop api token audio_then chunks r r2 st)) =
      plays (snd (sendMessage api token t r2 (st\<lparr>audioEnabled := audio_then\<rparr>)))"
    by blast
  with assms have
    "u \<in> set (plays (snd (sendMessage api token t r2 (st\<lparr>audioEnabled := audio_then\<rparr>))))"
    by simp
  then show ?thesis by (rule plays_sendMessage_source)
qed

lemma plays_replay_eq:
  "plays (replay msg) =
     (if truthy (audio msg) then [js ''data:audio/mp3;base64,'' @ interp (audio msg)] else [])"
  by (simp add: replay_def playAudio_def)

lemma plays_replay:
  assumes "u \<in> set (plays (replay msg))"
  shows "\<exists>b. b \<noteq> [] \<and> u = js ''data:audio/mp3;base64,'' @ b \<and> audio msg = Some b"
proof (cases "truthy (audio msg)")
  case True
  with assms have u: "u = js ''data:audio/mp3;base64,'' @ interp (audio msg)"
    by (simp add: plays_replay_eq)
  from truthy_Some[OF True] u show ?thesis by auto
next
  case False
  with assms show ?thesis by (simp add: plays_replay_eq)
qed

lemma plays_silent:
  "plays (snd (fetchUser api r0 a)) = []"
  "plays (snd (snd (login api e pw r1 a))) = []"
  "plays (snd (snd (register api ud r1 a))) = []"
  "plays (snd (logout a)) = []"
  "plays (snd (fetchSoulprint api token r2 st2)) = []"
  "plays (snd (startRecording mic st3)) = []"
  "plays (snd (drawCards api token user r4 st4)) = []"
  "plays (snd (startScan mic st5)) = []"
  "plays (snd (startScan_onloadend api token encode chunks r5 st5)) = []"
  "plays (snd (fetchPosts api r6 st6)) = []"
  "plays (snd (createPost api token r7 st6)) = []"
  "plays (snd (checkPaymentStatus api sessionId token user r8)) = []"
  "plays (snd (startCheckout api token origin r9)) = []"
  "plays (snd (search api enc r10 st10)) = []"
proof -
  have t: "plays (map (\<lambda>idx. Set_timeout (500 + idx * 800)) xs) = []" for xs :: "nat list"
    by (induction xs) simp_all
  show "plays (snd (fetchUser api r0 a)) = []"
    by (simp add: fetchUser_def logout_def Let_def split: fetch_result.split sum.split)
  show "plays (snd (snd (login api e pw r1 a))) = []"
    by (simp add: login_def store_session_def Let_def split: fetch_result.split sum.split)
  show "plays (snd (snd (register api ud r1 a))) = []"
    by (simp add: register_def store_session_def Let_def split: fetch_result.split sum.split)
  show "plays (snd (logout a)) = []"
    by (simp add: logout_def)
  show "plays (snd (fetchSoulprint api token r2 st2)) = []"
    by (simp add: fetchSoulprint_def Let_def split: fetch_result.split sum.split)
  show "plays (snd (startRecording mic st3)) = []"
    by (simp add: startRecording_def)
  show "plays (snd (drawCards api token user r4 st4)) = []"
    by (simp add: drawCards_def Let_def t split: fetch_result.split sum.split)
  show "plays (snd (startScan mic st5)) = []"
    by (simp add: startScan_def)
  show "plays (snd (startScan_onloadend api token encode chunks r5 st5)) = []"
    by (simp add: startScan_onloadend_def Let_def split: fetch_result.split sum.split)
  show "plays (snd (fetchPosts api r6 st6)) = []"
    by (simp add: fetchPosts_def Let_def split: fetch_result.split sum.split)
  show "plays (snd (createPost api token r7 st6)) = []"
    by (simp add: createPost_def Let_def split: fetch_result.split sum.split)
  show "plays (snd (checkPaymentStatus api sessionId token user r8)) = []"
    by (simp add: checkPaymentStatus_def Let_def split: fetch_result.split sum.split)
  show "plays (snd (startCheckout api token origin r9)) = []"
    by (simp add: startCheckout_def Let_def split: fetch_result.split sum.split)
  show "plays (snd (search api enc r10 st10)) = []"
    by (simp add: search_def Let_def split: fetch_result.split sum.split)
qed

lemma plays_handleSubmit: "plays (snd (snd (handleSubmit api r p a))) = []"
proof (cases "isLogin p")
  case True
  obtain res a' acts where l:
    "login api (form_email (formData p)) (form_password (formData p)) r a = (res, a', acts)"
    by (cases "login api (form_email (formData p)) (form_password (formData p)) r a") auto
  have "plays acts = []"
    using plays_silent(2)[of api "form_email (formData p)" "form_password (formData p)" r a] l
    by simp
  then show ?thesis using True l
    by (simp add: handleSubmit_def plays_append split: sum.split)
next
  case False
  obtain res a' acts where l: "register api (formData p) r a = (res, a', acts)"
    by (cases "register api (formData p) r a") auto
  have "plays acts = []"
    using plays_silent(3)[of api "formData p" r a] l by simp
  then show ?thesis using False l
    by (simp add: handleSubmit_def plays_append split: sum.split)
qed

lemma plays_pollPaymentStatus:
  "plays (snd (pollPaymentStatus api sessionId token user env 0)) = []"
  using poll_shape[of env api sessionId token user]
  by (auto simp: plays_rounds[where rest="[]", simplified] plays_rounds)

text \<open>
  C8, amended. Of all requests of all operations, the only one with a body that is not
  JSON is the oracle's transcription upload, sent as form data with the recording as its
  file part; the bio-scan upload is a JSON body holding the recording as base64 text; every
  other request is a GET without body or a POST with a JSON body and the JSON content type.
  Audio playback is base64-encoded audio embedded in JSON: every audio played by any
  operation is the data URL of a base64 text that is not empty, which is the
  \<open>audio_base64\<close> field of the JSON answer to the oracle message (for a replay, the text
  kept from that field in the message); and when audio is enabled and the answer to a
  message carries such a text, \<open>sendMessage\<close> keeps it in the oracle's message and plays it.
\<close>

theorem payloads_json_except_transcription:
  "(r \<in> set (fetches (snd (run api op a))) \<longrightarrow>
     (\<exists>call. r = request_of api (auth_token a) call \<and>
       (case call of
          Call_listen recording \<Rightarrow>
            body r = Form_data ''file'' recording (js ''recording.webm'') \<and>
            map_of (headers r) ''Content-Type'' = None
        | Call_scan base64 \<Rightarrow>
            body r = Json_body [(''audio_base64'', base64)] \<and>
            map_of (headers r) ''Content-Type'' = Some (js ''application/json'')
        | _ \<Rightarrow>
            (body r = No_body \<and> req_method r = GET) \<or>
            (\<exists>fields. body r = Json_body fields \<and> req_method r = POST \<and>
               map_of (headers r) ''Content-Type'' = Some (js ''application/json'')))))
   \<and> (u \<in> set (plays (snd (run api op a))) \<longrightarrow>
     (\<exists>b. b \<noteq> [] \<and> u = js ''data:audio/mp3;base64,'' @ b \<and>
       (case op of
          Op_sendMessage st' txt' r' \<Rightarrow>
            \<exists>data'. r' = Resp_ok (Inr data') \<and> audio_base64 data' = Some b
        | Op_startRecording_onstop st' audio_then chunks r' r2 \<Rightarrow>
            \<exists>data'. r2 = Resp_ok (Inr data') \<and> audio_base64 data' = Some b
        | Op_replay msg \<Rightarrow> audio msg = Some b
        | _ \<Rightarrow> False)))
   \<and> (trim txt \<noteq> [] \<and> audioEnabled st \<and> audio_base64 data = Some b \<and> b \<noteq> [] \<longrightarrow>
        snd (sendMessage api token txt (Resp_ok (Inr data)) st) =
          [Fetch (oracle_request api token True txt),
           Play_audio (js ''data:audio/mp3;base64,'' @ b)] \<and>
        map audio (messages (fst (sendMessage api token txt (Resp_ok (Inr data)) st))) =
          map audio (messages st) @ [None, Some b])"
proof (intro conjI impI)
  assume "r \<in> set (fetches (snd (run api op a)))"
  then obtain call where r: "r = request_of api (auth_token a) call"
    using fetches_run[of api op a] by auto
  have "case call of
        Call_listen recording \<Rightarrow>
          body (request_of api (auth_token a) call) = Form_data ''file'' recording (js ''recording.webm'') \<and>
          map_of (headers (request_of api (auth_token a) call)) ''Content-Type'' = None
      | Call_scan base64 \<Rightarrow>
          body (request_of api (auth_token a) call) = Json_body [(''audio_base64'', base64)] \<and>
          map_of (headers (request_of api (auth_token a) call)) ''Content-Type'' = Some (js ''application/json'')
      | _ \<Rightarrow>
          (body (request_of api (auth_token a) call) = No_body \<and> req_method (request_of api (auth_token a) call) = GET) \<or>
          (\<exists>fields. body (request_of api (auth_token a) call) = Json_body fields \<and>
             req_method (request_of api (auth_token a) call) = POST \<and>
             map_of (headers (request_of api (auth_token a) call)) ''Content-Type'' = Some (js ''application/json''))"
    by (cases call)
       (simp_all add: me_request_def login_request_def register_request_def
          soulprint_request_def oracle_request_def listen_request_def draw_request_def
          scan_request_def feed_request_def post_request_def status_request_def
          checkout_request_def search_request_def)
  with r show "\<exists>call. r = request_of api (auth_token a) call \<and>
       (case call of
          Call_listen recording \<Rightarrow>
            body r = Form_data ''file'' recording (js ''recording.webm'') \<and>
            map_of (headers r) ''Content-Type'' = None
        | Call_scan base64 \<Rightarrow>
            body r = Json_body [(''audio_base64'', base64)] \<and>
            map_of (headers r) ''Content-Type'' = Some (js ''application/json'')
        | _ \<Rightarrow>
            (body r = No_body \<and> req_method r = GET) \<or>
            (\<exists>fields. body r = Json_body fields \<and> req_method r = POST \<and>
               map_of (headers r) ''Content-Type'' = Some (js ''application/json'')))"
    by blast
next
  assume u: "u \<in> set (plays (snd (run api op a)))"
  show "\<exists>b. b \<noteq> [] \<and> u = js ''data:audio/mp3;base64,'' @ b \<and>
       (case op of
          Op_sendMessage st' txt' r' \<Rightarrow>
            \<exists>data'. r' = Resp_ok (Inr data') \<and> audio_base64 data' = Some b
        | Op_startRecording_onstop st' audio_then chunks r' r2 \<Rightarrow>
            \<exists>data'. r2 = Resp_ok (Inr data') \<and> audio_base64 data' = Some b
        | Op_replay msg \<Rightarrow> audio msg = Some b
        | _ \<Rightarrow> False)"
  proof (cases op)
    case (Op_sendMessage st' txt' r')
    with u have "u \<in> set (plays (snd (sendMessage api (auth_token a) txt' r' st')))"
      by (simp add: on_page_def)
    from plays_sendMessage_source[OF this] Op_sendMessage show ?thesis by simp
  next
    case (Op_startRecording_onstop st' audio_then chunks r' r2)
    with u have "u \<in> set (plays (snd (startRecording_onstop api (auth_token a) audio_then
        chunks r' r2 st')))"
      by (simp add: on_page_def)
    from plays_startRecording_onstop[OF this] Op_startRecording_onstop show ?thesis by simp
  next
    case (Op_replay msg)
    with u have "u \<in> set (plays (replay msg))" by (simp add: on_page_def)
    from plays_replay[OF this] Op_replay show ?thesis by simp
  qed (use u in \<open>simp_all add: on_page_def plays_silent plays_handleSubmit
        plays_pollPaymentStatus\<close>)
next
  assume h: "trim txt \<noteq> [] \<and> audioEnabled st \<and> audio_base64 data = Some b \<and> b \<noteq> []"
  then show "snd (sendMessage api token txt (Resp_ok (Inr data)) st) =
          [Fetch (oracle_request api token True txt),
           Play_audio (js ''data:audio/mp3;base64,'' @ b)]"
    by (simp add: sendMessage_def playAudio_def truthy_def interp_def Let_def)
  from h show "map audio (messages (fst (sendMessage api token txt (Resp_ok (Inr data)) st))) =
          map audio (messages st) @ [None, Some b]"
    by (simp add: sendMessage_def Let_def)
qed

theorem payloads_json_except_transcription_witness:
  "listen_request [] (Some (js ''tok'')) [0, 1, 2] \<in> set (fetches (snd (run [] heard signed_in)))
   \<and> (\<exists>call. listen_request [] (Some (js ''tok'')) [0, 1, 2] = request_of [] (Some (js ''tok'')) call \<and>
     (case call of
        Call_listen recording \<Rightarrow>
          body (listen_request [] (Some (js ''tok'')) [0, 1, 2]) =
            Form_data ''file'' recording (js ''recording.webm'') \<and>
          map_of (headers (listen_request [] (Some (js ''tok'')) [0, 1, 2])) ''Content-Type'' = None
      | Call_scan base64 \<Rightarrow>
          body (listen_request [] (Some (js ''tok'')) [0, 1, 2]) = Json_body [(''audio_base64'', base64)] \<and>
          map_of (headers (listen_request [] (Some (js ''tok'')) [0, 1, 2])) ''Content-Type'' =
            Some (js ''application/json'')
      | _ \<Rightarrow>
          (body (listen_request [] (Some (js ''tok'')) [0, 1, 2]) = No_body \<and>
           req_method (listen_request [] (Some (js ''tok'')) [0, 1, 2]) = GET) \<or>
          (\<exists>fields. body (listen_request [] (Some (js ''tok'')) [0, 1, 2]) = Json_body fields \<and>
             req_method (listen_request [] (Some (js ''tok'')) [0, 1, 2]) = POST \<and>
             map_of (headers (listen_request [] (Some (js ''tok'')) [0, 1, 2])) ''Content-Type'' =
               Some (js ''application/json''))))
   \<and> js ''data:audio/mp3;base64,'' @ js ''AAEC'' \<in> set (plays (snd (run [] heard signed_in)))
   \<and> (\<exists>b. b \<noteq> [] \<and> js ''data:audio/mp3;base64,'' @ js ''AAEC'' = js ''data:audio/mp3;base64,'' @ b \<and>
          (\<exists>data'. Resp_ok (Inr spoken) = Resp_ok (Inr data') \<and> audio_base64 data' = Some b))
   \<and> snd (sendMessage [] (Some (js ''tok'')) (js ''Why?'') (Resp_ok (Inr spoken)) listening) =
        [Fetch (oracle_request [] (Some (js ''tok'')) True (js ''Why?'')),
         Play_audio (js ''data:audio/mp3;base64,'' @ js ''AAEC'')]
   \<and> map audio (messages (fst (sendMessage [] (Some (js ''tok'')) (js ''Why?'')
          (Resp_ok (Inr spoken)) listening))) = [None, Some (js ''AAEC'')]"
proof -
  note inst = payloads_json_except_transcription[of
      "listen_request [] (Some (js ''tok'')) [0, 1, 2]" "[]" heard signed_in
      "js ''data:audio/mp3;base64,'' @ js ''AAEC''" "js ''Why?''" listening spoken "js ''AAEC''"
      "Some (js ''tok'')"]
  have why: "trim (js ''Why?'') = js ''Why?''"
    by (simp add: trim_def js_def js_whitespace_def)
  have acts: "snd (run [] heard signed_in) =
      [Fetch (listen_request [] (Some (js ''tok'')) [0, 1, 2]),
       Fetch (oracle_request [] (Some (js ''tok'')) True (js ''Why?'')),
       Play_audio (js ''data:audio/mp3;base64,'' @ js ''AAEC'')]"
    by (simp add: heard_def signed_in_def on_page_def startRecording_onstop_def sendMessage_def
        playAudio_def truthy_def interp_def why listening_def spoken_def Let_def)
       (simp add: js_def)
  have 1: "listen_request [] (Some (js ''tok'')) [0, 1, 2] \<in> set (fetches (snd (run [] heard signed_in)))"
    by (simp add: acts)
  have 2: "js ''data:audio/mp3;base64,'' @ js ''AAEC'' \<in> set (plays (snd (run [] heard signed_in)))"
    by (simp add: acts)
  have 3: "trim (js ''Why?'') \<noteq> [] \<and> audioEnabled listening \<and>
      audio_base64 spoken = Some (js ''AAEC'') \<and> js ''AAEC'' \<noteq> []"
    by (simp add: why listening_def spoken_def) (simp add: js_def)
  have c1: "\<exists>call. listen_request [] (Some (js ''tok'')) [0, 1, 2] = request_of [] (Some (js ''tok'')) call \<and>
     (case call of
        Call_listen recording \<Rightarrow>
          body (listen_request [] (Some (js ''tok'')) [0, 1, 2]) =
            Form_data ''file'' recording (js ''recording.webm'') \<and>
          map_of (headers (listen_request [] (Some (js ''tok'')) [0, 1, 2])) ''Content-Type'' = None
      | Call_scan base64 \<Rightarrow>
          body (listen_request [] (Some (js ''tok'')) [0, 1, 2]) = Json_body [(''audio_base64'', base64)] \<and>
          map_of (headers (listen_request [] (Some (js ''tok'')) [0, 1, 2])) ''Content-Type'' =
            Some (js ''application/json'')
      | _ \<Rightarrow>
          (body (listen_request [] (Some (js ''tok'')) [0, 1, 2]) = No_body \<and>
           req_method (listen_request [] (Some (js ''tok'')) [0, 1, 2]) = GET) \<or>
          (\<exists>fields. body (listen_request [] (Some (js ''tok'')) [0, 1, 2]) = Json_body fields \<and>
             req_method (listen_request [] (Some (js ''tok'')) [0, 1, 2]) = POST \<and>
             map_of (headers (listen_request [] (Some (js ''tok'')) [0, 1, 2])) ''Content-Type'' =
               Some (js ''application/json'')))"
    using inst[THEN conjunct1, THEN mp, OF 1] by (simp add: signed_in_def)
  have c2: "\<exists>b. b \<noteq> [] \<and> js ''data:audio/mp3;base64,'' @ js ''AAEC'' = js ''data:audio/mp3;base64,'' @ b \<and>
          (\<exists>data'. Resp_ok (Inr spoken) = Resp_ok (Inr data') \<and> audio_base64 data' = Some b)"
    using inst[THEN conjunct2, THEN conjunct1, THEN mp, OF 2] by (simp add: heard_def)
  have c3: "snd (sendMessage [] (Some (js ''tok'')) (js ''Why?'') (Resp_ok (Inr spoken)) listening) =
        [Fetch (oracle_request [] (Some (js ''tok'')) True (js ''Why?'')),
         Play_audio (js ''data:audio/mp3;base64,'' @ js ''AAEC'')]
     \<and> map audio (messages (fst (sendMessage [] (Some (js ''tok'')) (js ''Why?'')
          (Resp_ok (Inr spoken)) listening))) = map audio (messages listening) @ [None, Some (js ''AAEC'')]"
    using inst[THEN conjunct2, THEN conjunct2, THEN mp, OF 3] .
  have m: "messages listening = []" by (simp add: listening_def)
  from 1 c1 2 c2 c3 show ?thesis unfolding m by simp
qed

section \<open>Errors of login and register\<close>

text \<open>
  C7, as stated, fails for login: the server answers 401 with the message
  \<open>Account locked\<close>, and \<open>login\<close> throws \<open>Invalid credentials\<close>, which is what the auth
  page shows.
\<close>

theorem login_hides_server_message:
  "fst (login [] (js ''a@b.c'') (js ''pw'')
          (Resp_not_ok (Inr \<lparr>detail = Some (js ''Account locked'')\<rparr>)) logged_out) =
     Inl (js ''Invalid credentials'')
   \<and> fst (login [] (js ''a@b.c'') (js ''pw'')
          (Resp_not_ok (Inr \<lparr>detail = Some (js ''Account locked'')\<rparr>)) logged_out) \<noteq>
     Inl (js ''Account locked'')
   \<and> snd (snd (handleSubmit []
          (Resp_not_ok (Inr \<lparr>detail = Some (js ''Account locked'')\<rparr>))
          \<lparr>isLogin = True,
           formData = \<lparr>form_email = js ''a@b.c'', form_password = js ''pw'', form_name = [],
                       form_birth_date = []\<rparr>,
           page_loading = False\<rparr>
          logged_out)) =
     [Fetch (login_request [] (js ''a@b.c'') (js ''pw'')), Toast_error (js ''Invalid credentials'')]"
  by (simp add: login_def handleSubmit_def js_def)

text \<open>
  C7, amended. For every answer that is not ok, \<open>login\<close> throws the fixed message
  \<open>Invalid credentials\<close>, whatever the server sent; \<open>register\<close> throws the server's
  \<open>detail\<close> when it is a string that is not empty and \<open>Registration failed\<close> when it is
  empty or absent; and the auth page shows the message of the thrown error in an error
  toast after the request (for register with an unreadable body, the parse error's).
\<close>

theorem auth_errors_surfaced:
  "fst (login api e pw (Resp_not_ok b) a) = Inl (js ''Invalid credentials'')
   \<and> fst (register api u (Resp_not_ok (Inr \<lparr>detail = Some d\<rparr>)) a) =
       Inl (if d = [] then js ''Registration failed'' else d)
   \<and> fst (register api u (Resp_not_ok (Inr \<lparr>detail = None\<rparr>)) a) = Inl (js ''Registration failed'')
   \<and> snd (snd (handleSubmit api (Resp_not_ok b) p a)) =
       (if isLogin p
        then [Fetch (login_request api (form_email (formData p)) (form_password (formData p))),
              Toast_error (js ''Invalid credentials'')]
        else [Fetch (register_request api (formData p)),
              Toast_error
                (case b of
                   Inl m \<Rightarrow> m
                 | Inr err \<Rightarrow>
                     (case detail err of
                        None \<Rightarrow> js ''Registration failed''
                      | Some d \<Rightarrow> if d = [] then js ''Registration failed'' else d))])"
  by (simp add: login_def register_def handleSubmit_def or_else_def split: sum.split option.split)

section \<open>Who changes the user\<close>

lemma apply_actions_users_set:
  "apply_actions acts a = (if users_set acts = [] then a else a\<lparr>auth_user := Some (last (users_set acts))\<rparr>)"
  by (induction acts a rule: apply_actions.induct) simp_all

lemma users_set_pages:
  "users_set (snd (fetchSoulprint api token r1 st1)) = []"
  "users_set (snd (sendMessage api token txt r2 st2)) = []"
  "users_set (snd (startRecording mic st2)) = []"
  "users_set (snd (drawCards api token user r4 st4)) = []"
  "users_set (snd (startScan mic st5)) = []"
  "users_set (snd (startScan_onloadend api token encode chunks r5 st5)) = []"
  "users_set (snd (fetchPosts api r6 st6)) = []"
  "users_set (snd (createPost api token r7 st6)) = []"
  "users_set (snd (startCheckout api token origin r8)) = []"
  "users_set (snd (search api enc r9 st9)) = []"
proof -
  have t: "users_set (map (\<lambda>idx. Set_timeout (500 + idx * 800)) xs) = []" for xs :: "nat list"
    by (induction xs) simp_all
  show "users_set (snd (fetchSoulprint api token r1 st1)) = []"
    by (simp add: fetchSoulprint_def Let_def split: fetch_result.split sum.split)
  show "users_set (snd (sendMessage api token txt r2 st2)) = []"
    by (simp add: sendMessage_def playAudio_def Let_def split: fetch_result.split sum.split)
  show "users_set (snd (startRecording mic st2)) = []"
    by (simp add: startRecording_def)
  show "users_set (snd (drawCards api token user r4 st4)) = []"
    by (simp add: drawCards_def Let_def t split: fetch_result.split sum.split)
  show "users_set (snd (startScan mic st5)) = []"
    by (simp add: startScan_def)
  show "users_set (snd (startScan_onloadend api token encode chunks r5 st5)) = []"
    by (simp add: startScan_onloadend_def Let_def split: fetch_result.split sum.split)
  show "users_set (snd (fetchPosts api r6 st6)) = []"
    by (simp add: fetchPosts_def Let_def split: fetch_result.split sum.split)
  show "users_set (snd (createPost api token r7 st6)) = []"
    by (simp add: createPost_def Let_def split: fetch_result.split sum.split)
  show "users_set (snd (startCheckout api token origin r8)) = []"
    by (simp add: startCheckout_def Let_def split: fetch_result.split sum.split)
  show "users_set (snd (search api enc r9 st9)) = []"
    by (simp add: search_def Let_def split: fetch_result.split sum.split)
qed

lemma users_set_replay: "users_set (replay msg) = []"
  by (simp add: replay_def playAudio_def)

lemma users_set_startRecording_onstop:
  "users_set (snd (startRecording_onstop api token audio_then chunks r r2 st)) = []"
  by (simp add: startRecording_onstop_def Let_def case_prod_unfold users_set_pages
      split: fetch_result.split sum.split)

lemma users_set_checkPaymentStatus:
  "users_set (snd (checkPaymentStatus api sessionId token user r)) =
     (if paid r then [with_premium user] else [])"
  by (simp add: checkPaymentStatus_def paid_def Let_def split: fetch_result.split sum.split)

lemma users_set_pollPaymentStatus:
  "users_set (snd (pollPaymentStatus api sessionId token user env 0)) =
     (if \<exists>i<5. paid (env i) then [with_premium user] else [])"
  using poll_shape[of env api sessionId token user]
  by (auto simp: users_set_rounds[where rest="[]", simplified] users_set_rounds)

text \<open>
  C3, as stated, fails: a premium user is logged in, and a login whose answer carries a
  user record without the premium flag replaces the user; the flag goes from true to
  false through an operation that is not a payment-status check.
\<close>

theorem premium_lost_on_login:
  "premium (auth_user \<lparr>auth_user = Some (seeker\<lparr>is_premium := True\<rparr>), auth_token = Some (js ''t1''),
                        auth_loading = False\<rparr>)
   \<and> \<not> premium (auth_user (fst (run []
        (Op_login (js ''a@b.c'') (js ''pw'')
           (Resp_ok (Inr \<lparr>session_token = js ''t2'', session_user = seeker\<rparr>)))
        \<lparr>auth_user = Some (seeker\<lparr>is_premium := True\<rparr>), auth_token = Some (js ''t1''),
         auth_loading = False\<rparr>)))"
  by (simp add: premium_def login_def store_session_def seeker_def)

text \<open>
  C3, amended. Over all operations of the frontend: \<open>checkPaymentStatus\<close> and
  \<open>pollPaymentStatus\<close> set the user to the same record with \<open>is_premium\<close> true exactly when
  an ok answer has the status \<open>paid\<close> (for the poll: among its five attempts) and leave
  the user unchanged otherwise; \<open>fetchUser\<close>, \<open>login\<close> and \<open>register\<close> (also through
  \<open>handleSubmit\<close>) replace the user by the record of an ok answer, with the flag that
  record has; \<open>fetchUser\<close> on an answer that is not ok and \<open>logout\<close> clear the user; every
  other operation leaves the user unchanged.
\<close>

theorem user_changed_only_by_auth_and_payment:
  "auth_user (fst (run api op a)) =
     (case op of
        Op_checkPaymentStatus sessionId r \<Rightarrow>
          if paid r then Some (with_premium (auth_user a)) else auth_user a
      | Op_pollPaymentStatus sessionId env \<Rightarrow>
          if \<exists>i<5. paid (env i) then Some (with_premium (auth_user a)) else auth_user a
      | Op_fetchUser r \<Rightarrow>
          (case r of
             Resp_ok (Inr data) \<Rightarrow> Some data
           | Resp_not_ok _ \<Rightarrow> None
           | _ \<Rightarrow> auth_user a)
      | Op_login e pw r \<Rightarrow>
          (case r of Resp_ok (Inr data) \<Rightarrow> Some (session_user data) | _ \<Rightarrow> auth_user a)
      | Op_register u r \<Rightarrow>
          (case r of Resp_ok (Inr data) \<Rightarrow> Some (session_user data) | _ \<Rightarrow> auth_user a)
      | Op_handleSubmit p r \<Rightarrow>
          (case r of Resp_ok (Inr data) \<Rightarrow> Some (session_user data) | _ \<Rightarrow> auth_user a)
      | Op_logout \<Rightarrow> None
      | _ \<Rightarrow> auth_user a)
   \<and> with_premium (Some v) = v\<lparr>is_premium := True\<rparr>
   \<and> is_premium (with_premium (auth_user a))"
proof (intro conjI)
  show "with_premium (Some v) = v\<lparr>is_premium := True\<rparr>" by (simp add: with_premium_def)
  show "is_premium (with_premium (auth_user a))" by (rule with_premium_is_premium)
  show "auth_user (fst (run api op a)) =
     (case op of
        Op_checkPaymentStatus sessionId r \<Rightarrow>
          if paid r then Some (with_premium (auth_user a)) else auth_user a
      | Op_pollPaymentStatus sessionId env \<Rightarrow>
          if \<exists>i<5. paid (env i) then Some (with_premium (auth_user a)) else auth_user a
      | Op_fetchUser r \<Rightarrow>
          (case r of
             Resp_ok (Inr data) \<Rightarrow> Some data
           | Resp_not_ok _ \<Rightarrow> None
           | _ \<Rightarrow> auth_user a)
      | Op_login e pw r \<Rightarrow>
          (case r of Resp_ok (Inr data) \<Rightarrow> Some (session_user data) | _ \<Rightarrow> auth_user a)
      | Op_register u r \<Rightarrow>
          (case r of Resp_ok (Inr data) \<Rightarrow> Some (session_user data) | _ \<Rightarrow> auth_user a)
      | Op_handleSubmit p r \<Rightarrow>
          (case r of Resp_ok (Inr data) \<Rightarrow> Some (session_user data) | _ \<Rightarrow> auth_user a)
      | Op_logout \<Rightarrow> None
      | _ \<Rightarrow> auth_user a)"
  proof (cases op)
    case (Op_fetchUser r)
    then show ?thesis
      by (simp add: fetchUser_def logout_def Let_def split: fetch_result.split sum.split)
  next
    case (Op_login e pw r)
    then show ?thesis
      by (simp add: login_def store_session_def Let_def split: fetch_result.split sum.split)
  next
    case (Op_register u r)
    then show ?thesis
      by (simp add: register_def store_session_def Let_def split: fetch_result.split sum.split)
  next
    case (Op_handleSubmit p r)
    then show ?thesis
      by (simp add: handleSubmit_def login_def register_def store_session_def Let_def
          split: fetch_result.split sum.split)
  next
    case Op_logout
    then show ?thesis by (simp add: logout_def)
  next
    case (Op_pollPaymentStatus sessionId env)
    then show ?thesis
      by (auto simp: on_page_def apply_actions_users_set users_set_pollPaymentStatus)
  qed (simp_all add: on_page_def apply_actions_users_set users_set_pages
        users_set_startRecording_onstop users_set_replay users_set_checkPaymentStatus
        users_set_pollPaymentStatus)
qed

section \<open>The size of a reading\<close>

lemma spreads_cards: "s \<in> set spreads \<Longrightarrow> spread_cards s \<in> {1, 3, 10}"
  by (auto simp: spreads_def)

lemma length_draw_reading:
  "spread_cards s \<le> length deck \<Longrightarrow> length (cards (draw_reading deck coin txt s)) = spread_cards s"
  by (simp add: draw_reading_def)

lemma length_render_cards: "length (render_cards rd flipped) = length (cards rd)"
  by (simp add: render_cards_def)

lemma shown_render_cards: "map shown_card (render_cards rd flipped) = cards rd"
proof -
  have "map shown_card (render_cards rd flipped) = map snd (zip [0..<length (cards rd)] (cards rd))"
    by (simp add: render_cards_def case_prod_unfold comp_def)
  also have "\<dots> = cards rd" by (simp add: map_snd_zip)
  finally show ?thesis .
qed

text \<open>
  C5. For every spread configured in the frontend, a submitted draw (the user is premium
  or the spread is not \<open>celtic_cross\<close>) sends the spread's id to the draw endpoint; the
  endpoint as the spec describes it, drawing from a table of 78 cards, answers with
  exactly the number of cards of that spread, which is 1 for \<open>single\<close>, 3 for
  \<open>three_card\<close> and 10 for \<open>celtic_cross\<close>; the answer becomes the page's reading, and
  the page renders one card element per card of it, in order.
\<close>

theorem draw_returns_spread_size:
  assumes "s \<in> set spreads" and "length deck = 78" and "spreadType st = spread_id s"
    and "premium user \<or> spread_id s \<noteq> js ''celtic_cross''"
  shows "fetches (snd (drawCards api token user (tarot_draw deck coin txt s) st)) =
           [draw_request api token (spread_id s) (question st)]
    \<and> reading_shown (fst (drawCards api token user (tarot_draw deck coin txt s) st)) =
           Some (draw_reading deck coin txt s)
    \<and> length (cards (draw_reading deck coin txt s)) = spread_cards s
    \<and> spread_cards s = (if spread_id s = js ''single'' then 1
                         else if spread_id s = js ''three_card'' then 3 else 10)
    \<and> TarotPage (fst (drawCards api token user (tarot_draw deck coin txt s) st)) =
           Reading_view (render_cards (draw_reading deck coin txt s) []) None
    \<and> length (render_cards (draw_reading deck coin txt s) flipped) = spread_cards s
    \<and> map shown_card (render_cards (draw_reading deck coin txt s) flipped) =
           cards (draw_reading deck coin txt s)"
proof -
  have n: "spread_cards s \<in> {1, 3, 10}" using assms(1) by (rule spreads_cards)
  then have le: "spread_cards s \<le> length deck" using assms(2) by auto
  have len: "length (cards (draw_reading deck coin txt s)) = spread_cards s"
    using le by (rule length_draw_reading)
  have t: "fetches (map (\<lambda>idx. Set_timeout (500 + idx * 800)) xs) = []" for xs :: "nat list"
    by (induction xs) simp_all
  have guard: "\<not> (\<not> premium user \<and> spreadType st = js ''celtic_cross'')"
    using assms(3,4) by auto
  have run: "drawCards api token user (tarot_draw deck coin txt s) st =
      (st\<lparr>tarot_loading := False, reading_shown := Some (draw_reading deck coin txt s), flippedCards := []\<rparr>,
       Fetch (draw_request api token (spreadType st) (question st)) #
       map (\<lambda>idx. Set_timeout (500 + idx * 800)) [0..<length (cards (draw_reading deck coin txt s))])"
    using guard by (simp add: drawCards_def tarot_draw_def Let_def)
  have ids: "spread_cards s = (if spread_id s = js ''single'' then 1
                         else if spread_id s = js ''three_card'' then 3 else 10)"
    using assms(1) by (auto simp: spreads_def js_def)
  have pos: "spread_cards s \<noteq> 0" using n by auto
  show ?thesis
    using len ids pos
    by (simp add: run t assms(3) TarotPage_def length_render_cards shown_render_cards)
qed

theorem draw_returns_spread_size_witness:
  "fetches (snd (drawCards [] (Some (js ''tok'')) (Some seeker)
       (tarot_draw example_deck example_coin (js ''The path opens.'') three_card) asking)) =
     [draw_request [] (Some (js ''tok'')) (js ''three_card'') (js ''Why?'')]
   \<and> reading_shown (fst (drawCards [] (Some (js ''tok'')) (Some seeker)
       (tarot_draw example_deck example_coin (js ''The path opens.'') three_card) asking)) =
     Some (draw_reading example_deck example_coin (js ''The path opens.'') three_card)
   \<and> length (cards (draw_reading example_deck example_coin (js ''The path opens.'') three_card)) = 3
   \<and> length (render_cards (draw_reading example_deck example_coin (js ''The path opens.'') three_card) []) = 3"
proof -
  have 1: "three_card \<in> set spreads" by (simp add: spreads_def three_card_def)
  have 2: "length example_deck = 78" by (simp add: example_deck_def)
  have 3: "spreadType asking = spread_id three_card" by (simp add: asking_def three_card_def)
  have 4: "premium (Some seeker) \<or> spread_id three_card \<noteq> js ''celtic_cross''"
    by (simp add: three_card_def js_def)
  show ?thesis
    using draw_returns_spread_size[OF 1 2 3 4, of "[]" "Some (js ''tok'')" example_coin
        "js ''The path opens.''" "[]"]
    by (simp add: three_card_def asking_def)
qed

end
